theory Spec2Isabelle
  imports Complex_Main "HOL-Library.Multiset"
begin

section \<open>Text: Python strings over the Latin-1 range\<close>

text \<open>
  A Python \<^verbatim>\<open>str\<close> is modelled as a \<^typ>\<open>string\<close> whose characters are the code
  points U+0000 .. U+00FF (every character of the keyword tables lies in that range).
  The three character classes below are those of CPython on that range:
  \<^verbatim>\<open>str.isspace\<close> (equally the regex class \<^verbatim>\<open>\s\<close>), the regex class \<^verbatim>\<open>\w\<close>, and
  \<^verbatim>\<open>str.lower\<close>.
\<close>

definition is_space :: "char \<Rightarrow> bool" where
  "is_space c = (let n = (of_char c :: int) in
     (9 \<le> n \<and> n \<le> 13) \<or> (28 \<le> n \<and> n \<le> 32) \<or> n = 133 \<or> n = 160)"

definition is_word :: "char \<Rightarrow> bool" where
  "is_word c = (let n = (of_char c :: int) in
     (48 \<le> n \<and> n \<le> 57) \<or> (65 \<le> n \<and> n \<le> 90) \<or> n = 95 \<or> (97 \<le> n \<and> n \<le> 122) \<or>
     n = 170 \<or> n = 178 \<or> n = 179 \<or> n = 181 \<or> n = 185 \<or> n = 186 \<or>
     (188 \<le> n \<and> n \<le> 190) \<or> (192 \<le> n \<and> n \<le> 214) \<or> (216 \<le> n \<and> n \<le> 246) \<or>
     (248 \<le> n \<and> n \<le> 255))"

definition lower_char :: "char \<Rightarrow> char" where
  "lower_char c = (let n = (of_char c :: int) in
     if (65 \<le> n \<and> n \<le> 90) \<or> (192 \<le> n \<and> n \<le> 222 \<and> n \<noteq> 215)
     then char_of (n + 32) else c)"

definition lower :: "string \<Rightarrow> string" where
  "lower s = map lower_char s"

definition strip :: "string \<Rightarrow> string" where
  "strip s = rev (dropWhile is_space (rev (dropWhile is_space s)))"

text \<open>\<^verbatim>\<open>k in t\<close> on strings: \<open>k\<close> occurs in \<open>t\<close> as a contiguous substring.\<close>

fun starts_with :: "string \<Rightarrow> string \<Rightarrow> bool" where
  "starts_with t [] = True"
| "starts_with [] (k # ks) = False"
| "starts_with (c # cs) (k # ks) = (c = k \<and> starts_with cs ks)"

fun str_in :: "string \<Rightarrow> string \<Rightarrow> bool" where
  "str_in k [] = (k = [])"
| "str_in k (c # cs) = (starts_with (c # cs) k \<or> str_in k cs)"

text \<open>The f-string \<^verbatim>\<open>f"{a} {b} {c}"\<close> on three strings.\<close>

definition join3 :: "string \<Rightarrow> string \<Rightarrow> string \<Rightarrow> string" where
  "join3 a b c = a @ '' '' @ b @ '' '' @ c"


section \<open>Dynamic values, dictionaries and the object store\<close>

text \<open>
  The values a feed-item dictionary holds: \<^verbatim>\<open>None\<close>, a string, an integer, a list of
  strings, or a naive \<^verbatim>\<open>datetime\<close> (as microseconds on the time line).
\<close>

datatype pyval = PNone | PStr string | PInt int | PList "string list" | PDate int

fun truthy :: "pyval \<Rightarrow> bool" where
  "truthy PNone = False"
| "truthy (PStr s) = (s \<noteq> [])"
| "truthy (PInt n) = (n \<noteq> 0)"
| "truthy (PList l) = (l \<noteq> [])"
| "truthy (PDate d) = True"

text \<open>\<^verbatim>\<open>str(n)\<close> of an integer, in decimal.\<close>

function str_nat :: "nat \<Rightarrow> string" where
  "str_nat n = (if n < 10 then [char_of (48 + n)] else str_nat (n div 10) @ [char_of (48 + n mod 10)])"
  by pat_completeness auto

termination
  by (relation "measure (\<lambda>n. n)") auto

definition str_int :: "int \<Rightarrow> string" where
  "str_int i = (if i < 0 then ''-'' @ str_nat (nat (- i)) else str_nat (nat i))"

text \<open>
  A replacement field \<^verbatim>\<open>{v}\<close> of an f-string. A string is inserted as it is, \<^verbatim>\<open>None\<close>
  and integers by their \<^verbatim>\<open>str\<close>; how Python prints a list or a datetime is left to
  the parameter \<open>fmt\<close>, and no property below depends on it.
\<close>

definition fstr :: "(pyval \<Rightarrow> string) \<Rightarrow> pyval \<Rightarrow> string" where
  "fstr fmt v = (case v of PStr s \<Rightarrow> s | PNone \<Rightarrow> ''None'' | PInt n \<Rightarrow> str_int n | _ \<Rightarrow> fmt v)"

text \<open>\<^verbatim>\<open>v or ''\<close>.\<close>

definition or_empty :: "pyval \<Rightarrow> pyval" where
  "or_empty v = (if truthy v then v else PStr [])"

text \<open>
  A dictionary with string keys is a map; \<^verbatim>\<open>d.get(k, default)\<close> is \<open>dict_get\<close>. The
  objects live in a store, a list indexed by address, and a Python list of dictionaries
  is a list of addresses into it: two entries with the same address are the same object.
\<close>

type_synonym item = "string \<rightharpoonup> pyval"

type_synonym heap = "item list"

definition dict_get :: "item \<Rightarrow> string \<Rightarrow> pyval \<Rightarrow> pyval" where
  "dict_get d k dflt = (case d k of Some v \<Rightarrow> v | None \<Rightarrow> dflt)"

text \<open>
  A dictionary whose iteration order matters is an association list in insertion order;
  \<^verbatim>\<open>d[k] = v\<close> overwrites in place or appends.
\<close>

fun dict_set :: "string \<Rightarrow> int \<Rightarrow> (string \<times> int) list \<Rightarrow> (string \<times> int) list" where
  "dict_set k v [] = [(k, v)]"
| "dict_set k v ((k', v') # rest) =
     (if k' = k then (k, v) # rest else (k', v') # dict_set k v rest)"

datatype error =
    AttributeError | TypeError | OverflowError | ZeroDivisionError
  | HTTPException nat | PostgresError | ReError


section \<open>Floating point\<close>

text \<open>
  A Python \<^verbatim>\<open>float\<close> is an IEEE 754 binary64 number. Its finite values are modelled as
  rationals, and every arithmetic operation as the exact operation followed by \<open>fl\<close>,
  rounding to the nearest binary64 value, ties to even: the result is a multiple of the
  unit in the last place of its binade, 52 binary digits below the leading one, with the
  exponent held at -1022 for subnormal numbers. The exponent has no upper limit in
  \<open>fl\<close>: a product beyond the binary64 range, which Python turns into an infinity
  without raising, stays the huge rational and compares with 80 and 50 as the infinity
  does. The one operation of the code that raises on overflow, the true division of two
  integers, checks for it.
\<close>

function log2_ge1 :: "rat \<Rightarrow> nat" where
  "log2_ge1 x = (if x < 2 then 0 else Suc (log2_ge1 (x / 2)))"
  by pat_completeness auto

termination
proof (relation "measure (\<lambda>x. nat \<lfloor>x\<rfloor>)")
  show "wf (measure (\<lambda>x::rat. nat \<lfloor>x\<rfloor>))" by simp
next
  fix x :: rat
  assume "\<not> x < 2"
  then have "x / 2 \<le> x - 1" by simp
  then have "\<lfloor>x / 2\<rfloor> \<le> \<lfloor>x - 1\<rfloor>" by (rule floor_mono)
  moreover have "0 < \<lfloor>x\<rfloor>" using \<open>\<not> x < 2\<close> by simp
  ultimately show "(x / 2, x) \<in> measure (\<lambda>x. nat \<lfloor>x\<rfloor>)" by simp
qed

declare log2_ge1.simps [simp del]

text \<open>For \<open>x > 0\<close>, the exponent \<open>e\<close> with \<open>2\<^sup>e \<le> x < 2\<^sup>e\<^sup>+\<^sup>1\<close>.\<close>

definition ilog2 :: "rat \<Rightarrow> int" where
  "ilog2 x = (if 1 \<le> x then int (log2_ge1 x)
              else let k = log2_ge1 (1 / x) in
                   if 2 ^ k = 1 / x then - int k else - int k - 1)"

definition round_half_even :: "rat \<Rightarrow> int" where
  "round_half_even m = (let f = \<lfloor>m\<rfloor>; d = m - of_int f in
     if d < 1 / 2 then f else if 1 / 2 < d then f + 1 else if even f then f else f + 1)"

definition fl :: "rat \<Rightarrow> rat" where
  "fl x = (if x = 0 then 0
           else let e = max (ilog2 \<bar>x\<bar>) (- 1022); ulp = 2 powi (e - 52)
                in of_int (round_half_even (x / ulp)) * ulp)"

text \<open>\<^verbatim>\<open>a / b\<close> on two integers (\<open>b\<close> is not zero where the code divides).\<close>

definition int_truediv :: "int \<Rightarrow> int \<Rightarrow> error + rat" where
  "int_truediv a b = (let q = fl (of_int a / of_int b) in
     if 2 powi 1024 \<le> \<bar>q\<bar> then Inl OverflowError else Inr q)"


section \<open>PriorityScorer (libs/priority\_scorer.py)\<close>

text \<open>
  The class-level dictionaries, as association lists in insertion order (their keys are
  pairwise distinct, so iterating \<^verbatim>\<open>.items()\<close> is iterating the list).
\<close>

definition TAX_REFORM_KEYWORDS :: "(string \<times> int) list" where
  "TAX_REFORM_KEYWORDS =
   [(''reforma tribut'' @ [CHR 0xE1] @ ''ria'', 100),
    (''reforma tributaria'', 100),
    (''ibs'', 95),
    (''cbs'', 95),
    (''imposto '' @ [CHR 0xFA] @ ''nico'', 90),
    (''imposto unico'', 90),
    (''iva brasileiro'', 90),
    (''iva'', 85),
    (''pec 45'', 85),
    (''pec 110'', 85),
    (''emenda constitucional'', 80),
    (''proposta de emenda'', 80),
    (''lei complementar'', 75),
    (''codigo tributario'', 75),
    (''c'' @ [CHR 0xF3] @ ''digo tribut'' @ [CHR 0xE1] @ ''rio'', 75),
    (''icms'', 70),
    (''iss'', 70),
    (''pis'', 65),
    (''cofins'', 65),
    (''simples nacional'', 60),
    (''regime tribut'' @ [CHR 0xE1] @ ''rio'', 60),
    (''regime tributario'', 60),
    (''tributa'' @ [CHR 0xE7, CHR 0xE3] @ ''o'', 55),
    (''tributacao'', 55),
    (''arrecada'' @ [CHR 0xE7, CHR 0xE3] @ ''o'', 55),
    (''arrecadacao'', 55),
    (''imposto'', 40),
    (''tributo'', 40),
    (''receita federal'', 35),
    (''minist'' @ [CHR 0xE9] @ ''rio da fazenda'', 35),
    (''ministerio da fazenda'', 35),
    (''fisco'', 30),
    (''contribuinte'', 25)]"

definition SOURCE_MULTIPLIERS :: "(string \<times> rat) list" where
  "SOURCE_MULTIPLIERS =
   [(''receita federal'', fl 1),
    (''minist'' @ [CHR 0xE9] @ ''rio da fazenda'', fl 1),
    (''ministerio da fazenda'', fl 1),
    (''senado federal'', fl (95 / 100)),
    (''c'' @ [CHR 0xE2] @ ''mara dos deputados'', fl (95 / 100)),
    (''camara dos deputados'', fl (95 / 100)),
    (''portal da transpar'' @ [CHR 0xEA] @ ''ncia'', fl (85 / 100)),
    (''portal da transparencia'', fl (85 / 100)),
    (''governo federal'', fl (8 / 10)),
    (''congresso nacional'', fl (9 / 10))]"

definition CATEGORIES :: "(string \<times> string list) list" where
  "CATEGORIES =
   [(''tax_reform'', [''reforma tribut'' @ [CHR 0xE1] @ ''ria'', ''reforma tributaria'',
                      ''ibs'', ''cbs'', ''pec 45'', ''pec 110'']),
    (''legislation'', [''lei'', ''emenda'', ''proposta'', ''projeto'',
                       ''medida provis'' @ [CHR 0xF3] @ ''ria'', ''medida provisoria'']),
    (''economy'', [''economia'', ''pib'', ''infla'' @ [CHR 0xE7, CHR 0xE3] @ ''o'', ''inflacao'',
                   ''mercado'', ''investimento'']),
    (''regulation'', [''regulamenta'' @ [CHR 0xE7, CHR 0xE3] @ ''o'', ''regulamentacao'', ''norma'',
                      ''instru'' @ [CHR 0xE7, CHR 0xE3] @ ''o'', ''instrucao'', ''portaria'']),
    (''general'', [])]"

text \<open>
  \<^verbatim>\<open>re.sub(r'[^a-z...\s]', ' ', s)\<close>: every character outside the class becomes a
  space. The class holds a-z, the eighteen accented letters listed in the pattern, and
  white space.
\<close>

definition keep_char :: "char \<Rightarrow> bool" where
  "keep_char c = (let n = (of_char c :: int) in
     (97 \<le> n \<and> n \<le> 122) \<or> is_space c \<or>
     c \<in> set [CHR 0xE1, CHR 0xE0, CHR 0xE2, CHR 0xE3, CHR 0xE9, CHR 0xE8, CHR 0xEA,
               CHR 0xED, CHR 0xEC, CHR 0xEE, CHR 0xF3, CHR 0xF2, CHR 0xF4, CHR 0xF5,
               CHR 0xFA, CHR 0xF9, CHR 0xFB, CHR 0xE7])"

definition blank_specials :: "string \<Rightarrow> string" where
  "blank_specials s = map (\<lambda>c. if keep_char c then c else CHR '' '') s"

text \<open>
  \<^verbatim>\<open>re.sub(r'\s+', ' ', s)\<close>: every maximal run of white space becomes one space. The
  flag says whether the previous character was white space.
\<close>

fun collapse_ws :: "bool \<Rightarrow> string \<Rightarrow> string" where
  "collapse_ws in_run [] = []"
| "collapse_ws in_run (c # cs) =
     (if is_space c then (if in_run then collapse_ws True cs else CHR '' '' # collapse_ws True cs)
      else c # collapse_ws False cs)"

definition clean_text :: "string \<Rightarrow> string" where
  "clean_text s = strip (collapse_ws False (blank_specials s))"

text \<open>
  The keyword loop of \<^verbatim>\<open>calculate_relevance_score\<close>: the state is the pair
  \<open>(score, matched_keywords)\<close>.
\<close>

fun match_keywords :: "string \<Rightarrow> (string \<times> int) list \<Rightarrow> int \<times> string list \<Rightarrow> int \<times> string list" where
  "match_keywords full_text [] st = st"
| "match_keywords full_text ((keyword, weight) # rest) (score, matched) =
     (if str_in keyword full_text
      then match_keywords full_text rest (score + weight, matched @ [keyword])
      else match_keywords full_text rest (score, matched))"

fun title_bonus :: "string \<Rightarrow> string list \<Rightarrow> int \<Rightarrow> int" where
  "title_bonus title_lower [] score = score"
| "title_bonus title_lower (keyword # rest) score =
     (if str_in keyword title_lower then title_bonus title_lower rest (score + 20)
      else title_bonus title_lower rest score)"

definition calculate_relevance_score :: "string \<Rightarrow> string \<Rightarrow> string \<Rightarrow> int" where
  "calculate_relevance_score title description content =
     (let full_text = clean_text (lower (join3 title description content));
          (score, matched_keywords) = match_keywords full_text TAX_REFORM_KEYWORDS (0, []);
          score = (if length matched_keywords > 1
                   then score + int (length matched_keywords) * 5 else score);
          title_lower = lower title;
          score = title_bonus title_lower matched_keywords score
      in min score 100)"

text \<open>
  What a call of \<^verbatim>\<open>calculate_relevance_score\<close> does with arbitrary values: the f-string
  renders each of them, and \<^verbatim>\<open>title.lower()\<close> raises \<^verbatim>\<open>AttributeError\<close> unless the title
  is a string. \<^verbatim>\<open>extract_keywords\<close> and \<^verbatim>\<open>categorize_content\<close> only render.
\<close>

definition call_calculate_relevance_score ::
    "(pyval \<Rightarrow> string) \<Rightarrow> pyval \<Rightarrow> pyval \<Rightarrow> pyval \<Rightarrow> error + int" where
  "call_calculate_relevance_score fmt title description content =
     (case title of
        PStr t \<Rightarrow> Inr (calculate_relevance_score t (fstr fmt description) (fstr fmt content))
      | _ \<Rightarrow> Inl AttributeError)"

text \<open>The loop over \<^verbatim>\<open>SOURCE_MULTIPLIERS\<close>: the first key inside the name wins.\<close>

fun find_multiplier :: "string \<Rightarrow> (string \<times> rat) list \<Rightarrow> rat" where
  "find_multiplier source_lower [] = fl 1"
| "find_multiplier source_lower ((source_key, multiplier) # rest) =
     (if str_in source_key source_lower then multiplier
      else find_multiplier source_lower rest)"

text \<open>\<^verbatim>\<open>0.7 + (source_credibility / 100) * 0.6\<close>.\<close>

definition credibility_factor :: "pyval \<Rightarrow> error + rat" where
  "credibility_factor source_credibility =
     (case source_credibility of
        PInt c \<Rightarrow> (case int_truediv c 100 of
                     Inl e \<Rightarrow> Inl e
                   | Inr q \<Rightarrow> Inr (fl (fl (7 / 10) + fl (q * fl (6 / 10)))))
      | _ \<Rightarrow> Inl TypeError)"

text \<open>
  The recency bonus. \<open>now\<close> is \<^verbatim>\<open>datetime.utcnow()\<close>; \<^verbatim>\<open>.days\<close> of a difference is
  its floor in days. \<^verbatim>\<open>pub_date.replace(tzinfo=None)\<close> raises on a value that is true
  and not a datetime: \<^verbatim>\<open>TypeError\<close> on a string, \<^verbatim>\<open>AttributeError\<close> otherwise.
\<close>

definition recency_bonus :: "int \<Rightarrow> pyval \<Rightarrow> error + int" where
  "recency_bonus now pub_date =
     (if truthy pub_date
      then (case pub_date of
              PDate d \<Rightarrow>
                (let days_old = (now - d) div 86400000000
                 in Inr (if days_old \<le> 1 then 10 else if days_old \<le> 7 then 5
                         else if days_old \<le> 30 then 2 else 0))
            | PStr s \<Rightarrow> Inl TypeError
            | _ \<Rightarrow> Inl AttributeError)
      else Inr 0)"

text \<open>\<^verbatim>\<open>(relevance * source_multiplier * credibility_factor) + recency_bonus\<close>.\<close>

definition final_score :: "int \<Rightarrow> rat \<Rightarrow> rat \<Rightarrow> int \<Rightarrow> rat" where
  "final_score relevance source_multiplier cred_factor bonus =
     fl (fl (fl (of_int relevance * source_multiplier) * cred_factor) + of_int bonus)"

definition priority_level :: "rat \<Rightarrow> string" where
  "priority_level score =
     (if score \<ge> 80 then ''high'' else if score \<ge> 50 then ''medium'' else ''low'')"

definition calculate_priority ::
    "(pyval \<Rightarrow> string) \<Rightarrow> int \<Rightarrow> pyval \<Rightarrow> pyval \<Rightarrow> pyval \<Rightarrow> pyval \<Rightarrow> pyval \<Rightarrow> pyval \<Rightarrow> error + string" where
  "calculate_priority fmt now title description content source_credibility source_name pub_date =
     (case call_calculate_relevance_score fmt title description content of
        Inl e \<Rightarrow> Inl e
      | Inr relevance \<Rightarrow>
     (case source_name of
        PStr name \<Rightarrow>
          (let source_lower = lower name;
               source_multiplier = find_multiplier source_lower SOURCE_MULTIPLIERS
           in case credibility_factor source_credibility of
                Inl e \<Rightarrow> Inl e
              | Inr cred_factor \<Rightarrow>
             (case recency_bonus now pub_date of
                Inl e \<Rightarrow> Inl e
              | Inr bonus \<Rightarrow>
                  Inr (priority_level (final_score relevance source_multiplier cred_factor bonus))))
      | _ \<Rightarrow> Inl AttributeError))"

definition extract_keywords :: "string \<Rightarrow> string \<Rightarrow> string \<Rightarrow> string list" where
  "extract_keywords title description content =
     (let full_text = lower (join3 title description content)
      in filter (\<lambda>keyword. str_in keyword full_text) (map fst TAX_REFORM_KEYWORDS))"

text \<open>
  \<^verbatim>\<open>categorize_content\<close>: the outer loop over the categories (skipping the fallback),
  the inner loop over the keywords of one category.
\<close>

fun categorize_loop :: "string \<Rightarrow> (string \<times> string list) list \<Rightarrow> string" where
  "categorize_loop full_text [] = ''general''"
| "categorize_loop full_text ((category, keywords) # rest) =
     (if category = ''general'' then categorize_loop full_text rest
      else if list_ex (\<lambda>keyword. str_in keyword full_text) keywords then category
      else categorize_loop full_text rest)"

definition categorize_content :: "string \<Rightarrow> string \<Rightarrow> string \<Rightarrow> string" where
  "categorize_content title description content =
     categorize_loop (lower (join3 title description content)) CATEGORIES"

text \<open>
  The body of the loop of \<^verbatim>\<open>score_batch\<close>: the four computations, then the copy of the
  item with the four keys set.
\<close>

definition enhanced_item :: "(pyval \<Rightarrow> string) \<Rightarrow> int \<Rightarrow> item \<Rightarrow> error + item" where
  "enhanced_item fmt now it =
     (let title = dict_get it ''title'' (PStr []);
          description = dict_get it ''description'' (PStr []);
          content = dict_get it ''content'' (PStr [])
      in case call_calculate_relevance_score fmt title description content of
           Inl e \<Rightarrow> Inl e
         | Inr score \<Rightarrow>
        (case calculate_priority fmt now title description content
                (dict_get it ''source_credibility'' (PInt 70))
                (dict_get it ''source_name'' (PStr []))
                (dict_get it ''pub_date'' PNone) of
           Inl e \<Rightarrow> Inl e
         | Inr priority \<Rightarrow>
             (let kws = extract_keywords (fstr fmt title) (fstr fmt description) (fstr fmt content);
                  category = categorize_content (fstr fmt title) (fstr fmt description)
                               (fstr fmt content)
              in Inr (it(''relevance_score'' \<mapsto> PInt score,
                         ''priority'' \<mapsto> PStr priority,
                         ''keywords'' \<mapsto> PList kws,
                         ''category'' \<mapsto> PStr category)))))"

text \<open>
  \<^verbatim>\<open>score_batch\<close>: \<^verbatim>\<open>item.copy()\<close> is a new object, stored behind the last address of
  the store; the result lists the new addresses. An exception ends the loop.
\<close>

fun score_batch_loop ::
    "(pyval \<Rightarrow> string) \<Rightarrow> int \<Rightarrow> heap \<Rightarrow> nat list \<Rightarrow> nat list \<Rightarrow> error + heap \<times> nat list" where
  "score_batch_loop fmt now h [] enhanced_items = Inr (h, enhanced_items)"
| "score_batch_loop fmt now h (a # rest) enhanced_items =
     (case enhanced_item fmt now (h ! a) of
        Inl e \<Rightarrow> Inl e
      | Inr e \<Rightarrow> score_batch_loop fmt now (h @ [e]) rest (enhanced_items @ [length h]))"

definition score_batch ::
    "(pyval \<Rightarrow> string) \<Rightarrow> int \<Rightarrow> heap \<Rightarrow> nat list \<Rightarrow> error + heap \<times> nat list" where
  "score_batch fmt now h items = score_batch_loop fmt now h items []"


section \<open>TaxReformContentFilter (libs/content\_filter.py)\<close>

record FilterResult =
  is_relevant :: bool
  relevance_score :: int
  matched_keywords :: "string list"
  filter_reason :: "string option"

definition primary_keywords :: "string list" where
  "primary_keywords =
   [''reforma tribut'' @ [CHR 0xE1] @ ''ria'', ''reforma tributaria'', ''ibs'', ''cbs'']"

definition secondary_keywords :: "string list" where
  "secondary_keywords =
   [''imposto sobre bens e servi'' @ [CHR 0xE7] @ ''os'',
    ''contribui'' @ [CHR 0xE7, CHR 0xE3] @ ''o sobre bens e servi'' @ [CHR 0xE7] @ ''os'',
    ''sistema tribut'' @ [CHR 0xE1] @ ''rio nacional'',
    ''c'' @ [CHR 0xF3] @ ''digo tribut'' @ [CHR 0xE1] @ ''rio nacional'',
    ''simplifica'' @ [CHR 0xE7, CHR 0xE3] @ ''o tribut'' @ [CHR 0xE1] @ ''ria'',
    ''unifica'' @ [CHR 0xE7, CHR 0xE3] @ ''o de impostos'',
    ''icms'', ''iss'', ''pis'', ''cofins'',
    ''minist'' @ [CHR 0xE9] @ ''rio da fazenda'',
    ''receita federal'',
    ''congresso nacional'',
    ''proposta de emenda constitucional'',
    ''pec'',
    ''emenda constitucional'',
    ''tributa'' @ [CHR 0xE7, CHR 0xE3] @ ''o'',
    ''arrecada'' @ [CHR 0xE7, CHR 0xE3] @ ''o'']"

definition exclusion_keywords :: "string list" where
  "exclusion_keywords =
   [''esporte'', ''futebol'', ''m'' @ [CHR 0xFA] @ ''sica'', ''entretenimento'',
    ''celebridade'', ''novela'', ''filme'', ''show'',
    ''crime'', ''acidente'', ''tr'' @ [CHR 0xE2] @ ''nsito'',
    ''meteorologia'', ''tempo'', ''chuva'']"

text \<open>The six accent substitutions of \<^verbatim>\<open>normalize_text\<close>, on one character.\<close>

definition deaccent :: "char \<Rightarrow> char" where
  "deaccent c = (let n = (of_char c :: int) in
     if 224 \<le> n \<and> n \<le> 229 then CHR ''a''
     else if 232 \<le> n \<and> n \<le> 235 then CHR ''e''
     else if 236 \<le> n \<and> n \<le> 239 then CHR ''i''
     else if 242 \<le> n \<and> n \<le> 246 then CHR ''o''
     else if 249 \<le> n \<and> n \<le> 252 then CHR ''u''
     else if n = 231 then CHR ''c''
     else c)"

definition normalize_text :: "string \<Rightarrow> string" where
  "normalize_text text = (if text = [] then [] else map deaccent (strip (lower text)))"

text \<open>
  \<^verbatim>\<open>len(re.findall(r'\b' + re.escape(keyword) + r'\b', text))\<close>. The pattern is a literal
  between two word boundaries; a boundary lies between two neighbours (the ends of the
  text count as non-word) of which exactly one is a word character. \<^verbatim>\<open>findall\<close> scans
  from the left and resumes behind each match, so matches do not overlap: \<open>skip\<close>
  counts the characters of the current match still to pass over.
\<close>

definition at_boundary :: "char option \<Rightarrow> char option \<Rightarrow> bool" where
  "at_boundary prev nxt =
     ((case prev of None \<Rightarrow> False | Some c \<Rightarrow> is_word c) \<noteq>
      (case nxt of None \<Rightarrow> False | Some c \<Rightarrow> is_word c))"

definition word_match_at :: "string \<Rightarrow> char option \<Rightarrow> string \<Rightarrow> bool" where
  "word_match_at kw prev text =
     (kw \<noteq> [] \<and> starts_with text kw \<and> at_boundary prev (Some (hd kw)) \<and>
      at_boundary (Some (last kw))
        (case drop (length kw) text of [] \<Rightarrow> None | c # _ \<Rightarrow> Some c))"

fun scan_matches :: "string \<Rightarrow> char option \<Rightarrow> nat \<Rightarrow> string \<Rightarrow> nat" where
  "scan_matches kw prev skip [] = 0"
| "scan_matches kw prev skip (c # cs) =
     (if skip > 0 then scan_matches kw (Some c) (skip - 1) cs
      else if word_match_at kw prev (c # cs)
           then 1 + scan_matches kw (Some c) (length kw - 1) cs
           else scan_matches kw (Some c) 0 cs)"

text \<open>An empty literal leaves the pattern \<^verbatim>\<open>\b\b\<close>, which matches at every boundary.\<close>

fun count_boundaries :: "char option \<Rightarrow> string \<Rightarrow> nat" where
  "count_boundaries prev [] = (if at_boundary prev None then 1 else 0)"
| "count_boundaries prev (c # cs) =
     (if at_boundary prev (Some c) then 1 else 0) + count_boundaries (Some c) cs"

definition findall_count :: "string \<Rightarrow> string \<Rightarrow> nat" where
  "findall_count kw text =
     (if kw = [] then count_boundaries None text else scan_matches kw None 0 text)"

fun count_loop :: "string \<Rightarrow> string list \<Rightarrow> (string \<times> int) list \<Rightarrow> (string \<times> int) list" where
  "count_loop normalized_text [] matches = matches"
| "count_loop normalized_text (keyword # rest) matches =
     (let normalized_keyword = normalize_text keyword;
          count = findall_count normalized_keyword normalized_text
      in count_loop normalized_text rest
           (if count > 0 then dict_set keyword (int count) matches else matches))"

definition count_keyword_matches :: "string \<Rightarrow> string list \<Rightarrow> (string \<times> int) list" where
  "count_keyword_matches text keywords = count_loop (normalize_text text) keywords []"

text \<open>
  \<^verbatim>\<open>TaxReformContentFilter.calculate_relevance_score\<close> (the admission score); the three
  arguments are the dictionaries keyword \<open>\<mapsto>\<close> count.
\<close>

definition filter_calculate_relevance_score ::
    "(string \<times> int) list \<Rightarrow> (string \<times> int) list \<Rightarrow> (string \<times> int) list \<Rightarrow> int" where
  "filter_calculate_relevance_score primary_matches secondary_matches exclusion_matches =
     (let primary_score = (\<Sum>count \<leftarrow> map snd primary_matches. count * 20);
          secondary_score = (\<Sum>count \<leftarrow> map snd secondary_matches. count * 5);
          exclusion_penalty = (\<Sum>count \<leftarrow> map snd exclusion_matches. count * 10);
          primary_score = (if length primary_matches > 1 then primary_score + 15
                           else primary_score);
          final_score = primary_score + secondary_score - exclusion_penalty
      in max 0 (min 100 final_score))"

text \<open>The text \<^verbatim>\<open>filter_content\<close> analyses.\<close>

definition filter_full_text :: "(pyval \<Rightarrow> string) \<Rightarrow> pyval \<Rightarrow> pyval \<Rightarrow> pyval \<Rightarrow> string" where
  "filter_full_text fmt title description content =
     join3 (fstr fmt (or_empty title)) (fstr fmt (or_empty description))
           (fstr fmt (or_empty content))"

definition filter_content :: "(pyval \<Rightarrow> string) \<Rightarrow> pyval \<Rightarrow> pyval \<Rightarrow> pyval \<Rightarrow> FilterResult" where
  "filter_content fmt title description content =
     (let full_text = filter_full_text fmt title description content in
      if strip full_text = []
      then \<lparr>is_relevant = False, relevance_score = 0, matched_keywords = [],
            filter_reason = Some ''No content to analyze''\<rparr>
      else
        let primary_matches = count_keyword_matches full_text primary_keywords;
            secondary_matches = count_keyword_matches full_text secondary_keywords;
            exclusion_matches = count_keyword_matches full_text exclusion_keywords;
            score = filter_calculate_relevance_score
                      primary_matches secondary_matches exclusion_matches;
            has_primary_keyword = (length primary_matches > 0);
            min_score_threshold = 15;
            relevant = (has_primary_keyword \<and> score \<ge> min_score_threshold);
            all_matched = map fst primary_matches @ map fst secondary_matches;
            reason = (if \<not> relevant
                      then (if \<not> has_primary_keyword then Some ''No tax reform keywords found''
                            else if score < min_score_threshold
                                 then Some (''Low relevance score: '' @ str_int score)
                                 else None)
                      else None)
        in \<lparr>is_relevant = relevant, relevance_score = score, matched_keywords = all_matched,
            filter_reason = reason\<rparr>)"

text \<open>
  \<^verbatim>\<open>filter_items_list\<close>. The loop writes the two keys into the item object itself and
  appends its address; the sort is Python's stable sort with \<^verbatim>\<open>reverse=True\<close>, which
  orders by key descending and keeps items of equal key in their order. Every item
  in \<^verbatim>\<open>filtered_items\<close> has just been given an integer score, which is the sort key.
\<close>

definition verdict_of :: "(pyval \<Rightarrow> string) \<Rightarrow> item \<Rightarrow> FilterResult" where
  "verdict_of fmt it =
     filter_content fmt (dict_get it ''title'' (PStr [])) (dict_get it ''description'' (PStr []))
       (dict_get it ''content'' (PStr []))"

fun filter_loop :: "(pyval \<Rightarrow> string) \<Rightarrow> heap \<Rightarrow> nat list \<Rightarrow> nat list \<Rightarrow> heap \<times> nat list" where
  "filter_loop fmt h [] filtered_items = (h, filtered_items)"
| "filter_loop fmt h (a # rest) filtered_items =
     (let it = h ! a;
          filter_result = verdict_of fmt it
      in if is_relevant filter_result
         then filter_loop fmt
                (h[a := it(''relevance_score'' \<mapsto> PInt (relevance_score filter_result),
                           ''matched_keywords'' \<mapsto> PList (matched_keywords filter_result))])
                rest (filtered_items @ [a])
         else filter_loop fmt h rest filtered_items)"

definition score_key :: "heap \<Rightarrow> nat \<Rightarrow> int" where
  "score_key h a = (case dict_get (h ! a) ''relevance_score'' (PInt 0) of PInt n \<Rightarrow> n | _ \<Rightarrow> 0)"

definition sort_desc :: "('a \<Rightarrow> int) \<Rightarrow> 'a list \<Rightarrow> 'a list" where
  "sort_desc key xs = sort_key (\<lambda>x. - key x) xs"

definition filter_items_list :: "(pyval \<Rightarrow> string) \<Rightarrow> heap \<Rightarrow> nat list \<Rightarrow> heap \<times> nat list" where
  "filter_items_list fmt h items =
     (let (h', filtered_items) = filter_loop fmt h items []
      in (h', sort_desc (score_key h') filtered_items))"


section \<open>Search (apis/search/\_\_init\_\_.py)\<close>

text \<open>\<^verbatim>\<open>str.split()\<close>: the maximal runs of characters that are not white space.\<close>

fun split_ws :: "string \<Rightarrow> string \<Rightarrow> string list" where
  "split_ws cur [] = (if cur = [] then [] else [cur])"
| "split_ws cur (c # cs) =
     (if is_space c then (if cur = [] then split_ws [] cs else cur # split_ws [] cs)
      else split_ws (cur @ [c]) cs)"

text \<open>\<^verbatim>\<open>sep.join(words)\<close>.\<close>

fun join :: "string \<Rightarrow> string list \<Rightarrow> string" where
  "join sep [] = []"
| "join sep [w] = w"
| "join sep (w # v # ws) = w @ sep @ join sep (v # ws)"

definition sanitize_search_query :: "string \<Rightarrow> string" where
  "sanitize_search_query query =
     (let query = map (\<lambda>c. if c \<in> set ''<>()&|!'' then CHR '' '' else c) query;
          words = map strip (filter (\<lambda>word. strip word \<noteq> []) (split_ws [] query))
      in if words = [] then [] else join '' & '' words)"

record feed_item =
  fi_id :: int
  fi_source_id :: int
  fi_title :: string
  fi_description :: "string option"
  fi_content :: "string option"
  fi_pub_date :: "int option"
  fi_priority :: string
  fi_relevance_score :: int
  fi_keywords :: "string list option"
  fi_category :: string

record database =
  rss_feed_items :: "feed_item list"
  rss_sources :: "(int \<times> string) list"
  user_bookmarks :: "(string \<times> int) list"

record SearchFilters =
  date_from :: "int option"
  date_to :: "int option"
  source_ids :: "int list option"
  categories :: "string list option"
  priorities :: "string list option"
  min_relevance :: "int option"
  filter_keywords :: "string list option"
  exclude_keywords :: "string list option"
  bookmarked_only :: "bool option"

record SearchRequest =
  query :: string
  filters :: "SearchFilters option"
  page :: int
  per_page :: int
  sort_by :: string
  sort_order :: string
  highlight :: bool

text \<open>
  The constraints the \<^verbatim>\<open>Field\<close> declarations of \<^verbatim>\<open>SearchRequest\<close> and \<^verbatim>\<open>SearchFilters\<close>
  put on a request. The framework checks them before it calls \<^verbatim>\<open>search_content\<close> and
  answers a request that fails them with status 422.
\<close>

definition valid_request :: "SearchRequest \<Rightarrow> bool" where
  "valid_request request =
     (1 \<le> length (query request) \<and> length (query request) \<le> 500 \<and>
      1 \<le> page request \<and> 1 \<le> per_page request \<and> per_page request \<le> 100 \<and>
      (case filters request of
         None \<Rightarrow> True
       | Some f \<Rightarrow> (case min_relevance f of None \<Rightarrow> True | Some m \<Rightarrow> 0 \<le> m \<and> m \<le> 100)))"

record facets =
  facet_categories :: "(string \<times> int) list"
  facet_sources :: "(string option \<times> int) list"
  facet_priorities :: "(string \<times> int) list"

record SearchResponse =
  total_results :: int
  resp_page :: int
  resp_per_page :: int
  total_pages :: int
  resp_facets :: facets

text \<open>A row of \<^verbatim>\<open>base_query\<close>: the item, its source if any, the caller's bookmark if any.\<close>

type_synonym joined_row = "(feed_item \<times> (int \<times> string) option) \<times> (string \<times> int) option"

text \<open>
  What \<^verbatim>\<open>search_content\<close> takes from the systems around it, none of which is code of
  this repository:
  \<^item> \<open>to_tsquery\<close> is the data store's text search. For the text of a query it gives the
    predicate \<^verbatim>\<open>to_tsvector(...) @@ to_tsquery('portuguese', $1)\<close> on items, or nothing
    when the data store rejects the text as a query (the statement then raises);
  \<^item> \<open>accepts_parameters\<close> says whether the data store and its driver accept the other
    parameters of the two statements: the filter values, the user id, the limit and
    the offset (a statement with a parameter they refuse raises);
  \<^item> \<open>order_by\<close> is the data store's \<^verbatim>\<open>ORDER BY\<close> for a query, a sort column and a
    direction;
  \<^item> \<open>template_ok\<close> says whether the regular-expression library accepts
    \<^verbatim>\<open><mark>word</mark>\<close> as a replacement template for a word (\<^verbatim>\<open>pattern.sub\<close> raises
    on a template it refuses).
\<close>

record externals =
  to_tsquery :: "string \<Rightarrow> (feed_item \<Rightarrow> bool) option"
  accepts_parameters :: "SearchFilters option \<Rightarrow> string \<Rightarrow> int \<Rightarrow> int \<Rightarrow> bool"
  order_by :: "string \<Rightarrow> string \<Rightarrow> string \<Rightarrow> joined_row list \<Rightarrow> joined_row list"
  template_ok :: "string \<Rightarrow> bool"

text \<open>\<^verbatim>\<open>a LEFT JOIN b ON on\<close>: every row of \<open>a\<close> with each matching row of \<open>b\<close>, or with NULL.\<close>

definition left_join :: "'a list \<Rightarrow> 'b list \<Rightarrow> ('a \<Rightarrow> 'b \<Rightarrow> bool) \<Rightarrow> ('a \<times> 'b option) list" where
  "left_join as bs on =
     concat (map (\<lambda>a. case filter (on a) bs of [] \<Rightarrow> [(a, None)]
                                  | ms \<Rightarrow> map (\<lambda>b. (a, Some b)) ms) as)"

text \<open>\<^verbatim>\<open>x && y\<close> on arrays: they share an element.\<close>

definition overlaps :: "string list \<Rightarrow> string list \<Rightarrow> bool" where
  "overlaps xs ys = list_ex (\<lambda>x. x \<in> set ys) xs"

text \<open>
  The conditions \<^verbatim>\<open>search_content\<close> appends to the WHERE clause, on a joined row. A
  comparison with a NULL column is not true, so the row is dropped. An empty list is
  falsy in Python and adds no condition.
\<close>

definition filter_conditions :: "SearchFilters \<Rightarrow> bool \<Rightarrow> feed_item \<times> (string \<times> int) option \<Rightarrow> bool" where
  "filter_conditions f has_user row =
     (let (fi, ub) = row in
      (case date_from f of None \<Rightarrow> True
         | Some d \<Rightarrow> (case fi_pub_date fi of None \<Rightarrow> False | Some p \<Rightarrow> p \<ge> d)) \<and>
      (case date_to f of None \<Rightarrow> True
         | Some d \<Rightarrow> (case fi_pub_date fi of None \<Rightarrow> False | Some p \<Rightarrow> p \<le> d)) \<and>
      (case source_ids f of None \<Rightarrow> True | Some [] \<Rightarrow> True
         | Some ids \<Rightarrow> fi_source_id fi \<in> set ids) \<and>
      (case categories f of None \<Rightarrow> True | Some [] \<Rightarrow> True
         | Some cs \<Rightarrow> fi_category fi \<in> set cs) \<and>
      (case priorities f of None \<Rightarrow> True | Some [] \<Rightarrow> True
         | Some ps \<Rightarrow> fi_priority fi \<in> set ps) \<and>
      (case min_relevance f of None \<Rightarrow> True | Some m \<Rightarrow> fi_relevance_score fi \<ge> m) \<and>
      (case filter_keywords f of None \<Rightarrow> True | Some [] \<Rightarrow> True
         | Some ks \<Rightarrow> (case fi_keywords fi of None \<Rightarrow> False | Some iks \<Rightarrow> overlaps iks ks)) \<and>
      (case exclude_keywords f of None \<Rightarrow> True | Some [] \<Rightarrow> True
         | Some ks \<Rightarrow> (case fi_keywords fi of None \<Rightarrow> False | Some iks \<Rightarrow> \<not> overlaps iks ks)) \<and>
      (if bookmarked_only f = Some True \<and> has_user then ub \<noteq> None else True))"

text \<open>
  The rows of \<^verbatim>\<open>base_query\<close> with its WHERE clause, before ordering: \<open>matches\<close> is the
  text-search predicate of the query. Both joins are kept, since a join multiplies rows.
\<close>

definition base_query_rows ::
    "(feed_item \<Rightarrow> bool) \<Rightarrow> database \<Rightarrow> string \<Rightarrow> SearchFilters option \<Rightarrow> bool \<Rightarrow> joined_row list" where
  "base_query_rows matches db user_id fs has_user =
     filter (\<lambda>((fi, rs), ub). matches fi \<and>
               (case fs of None \<Rightarrow> True | Some f \<Rightarrow> filter_conditions f has_user (fi, ub)))
       (left_join
          (left_join (rss_feed_items db) (rss_sources db) (\<lambda>fi rs. fi_source_id fi = fst rs))
          (user_bookmarks db) (\<lambda>(fi, rs) ub. fi_id fi = snd ub \<and> fst ub = user_id))"

text \<open>
  \<^verbatim>\<open>SELECT key, COUNT(*) ... GROUP BY key ORDER BY count DESC\<close>: one row per distinct
  key. SQL leaves the order of equal counts open; the model takes first occurrence.
\<close>

definition group_count :: "('r \<Rightarrow> 'k) \<Rightarrow> 'r list \<Rightarrow> ('k \<times> int) list" where
  "group_count key rows =
     sort_desc snd (map (\<lambda>k. (k, int (length (filter (\<lambda>r. key r = k) rows))))
                        (remdups (map key rows)))"

text \<open>
  \<^verbatim>\<open>get_search_facets\<close>: three statements whose only parameter is the query, and whose
  WHERE clause is the text-search predicate alone.
\<close>

definition get_search_facets :: "externals \<Rightarrow> database \<Rightarrow> string \<Rightarrow> string \<Rightarrow> error + facets" where
  "get_search_facets ext db q user_id =
     (case to_tsquery ext q of
        None \<Rightarrow> Inl PostgresError
      | Some matches \<Rightarrow>
          Inr \<lparr>facet_categories =
                 group_count fi_category (filter matches (rss_feed_items db)),
               facet_sources =
                 group_count (\<lambda>(fi, rs). map_option snd rs)
                   (filter (\<lambda>(fi, rs). matches fi)
                      (left_join (rss_feed_items db) (rss_sources db)
                         (\<lambda>fi rs. fi_source_id fi = fst rs))),
               facet_priorities =
                 group_count fi_priority (filter matches (rss_feed_items db))\<rparr>)"

text \<open>The sort column and direction \<^verbatim>\<open>search_content\<close> derives from the request.\<close>

definition sort_column :: "string \<Rightarrow> string" where
  "sort_column sort_by_value =
     (if sort_by_value = ''relevance'' then ''search_rank''
      else if sort_by_value = ''date'' then ''fi.pub_date''
      else if sort_by_value = ''priority'' then ''fi.priority''
      else ''search_rank'')"

definition sort_direction :: "string \<Rightarrow> string" where
  "sort_direction sort_order_value = (if lower sort_order_value = ''asc'' then ''ASC'' else ''DESC'')"

text \<open>
  Highlighting. \<^verbatim>\<open>highlight_text\<close> returns a falsy text as it is; on any other text
  it substitutes each word of the raw query in turn, and the substitution raises on
  the first word whose template the library refuses. It runs, if the request asks for
  it, on the title, the description and the content of every row of the page.
\<close>

definition query_words :: "string \<Rightarrow> string list" where
  "query_words q = map strip (filter (\<lambda>word. strip word \<noteq> []) (split_ws [] q))"

definition has_text :: "feed_item \<Rightarrow> bool" where
  "has_text fi =
     (fi_title fi \<noteq> [] \<or>
      (case fi_description fi of None \<Rightarrow> False | Some d \<Rightarrow> d \<noteq> []) \<or>
      (case fi_content fi of None \<Rightarrow> False | Some c \<Rightarrow> c \<noteq> []))"

definition highlight_raises :: "externals \<Rightarrow> SearchRequest \<Rightarrow> joined_row list \<Rightarrow> bool" where
  "highlight_raises ext request page_rows =
     (highlight request \<and>
      list_ex (\<lambda>row. has_text (fst (fst row))) page_rows \<and>
      list_ex (\<lambda>word. \<not> template_ok ext word) (query_words (query request)))"

text \<open>
  \<^verbatim>\<open>json.dumps(filters)\<close> in \<^verbatim>\<open>record_user_search_history\<close> raises \<^verbatim>\<open>TypeError\<close> on a
  filter set that holds a date.
\<close>

definition has_date_filter :: "SearchFilters option \<Rightarrow> bool" where
  "has_date_filter fs =
     (case fs of None \<Rightarrow> False | Some f \<Rightarrow> date_from f \<noteq> None \<or> date_to f \<noteq> None)"

text \<open>
  The body of the \<^verbatim>\<open>try\<close> in \<^verbatim>\<open>search_content\<close>, in the order of the code: the
  sanitized query and the status 400; the count and the page statements, which raise
  when the data store rejects the query text or a parameter; the rows of the page and
  their highlighting; the number of pages; the history record of a signed-in caller;
  the facets. The data store is taken to be reachable and to hold rows of the declared
  column types, and the inserts of the analytics and history records to succeed.
\<close>

definition search_content_body ::
    "externals \<Rightarrow> database \<Rightarrow> SearchRequest \<Rightarrow> string option \<Rightarrow> error + SearchResponse" where
  "search_content_body ext db request user =
     (let sanitized_query = sanitize_search_query (query request) in
      if sanitized_query = [] then Inl (HTTPException 400)
      else
        let user_id = (case user of Some u \<Rightarrow> u | None \<Rightarrow> []);
            offset = (page request - 1) * per_page request
        in case to_tsquery ext sanitized_query of
             None \<Rightarrow> Inl PostgresError
           | Some matches \<Rightarrow>
               if \<not> accepts_parameters ext (filters request) user_id (per_page request) offset
               then Inl PostgresError
               else
                 let rows = base_query_rows matches db user_id (filters request) (user \<noteq> None);
                     total = int (length rows);
                     page_rows =
                       take (nat (per_page request))
                         (drop (nat offset)
                            (order_by ext sanitized_query (sort_column (sort_by request))
                               (sort_direction (sort_order request)) rows))
                 in if highlight_raises ext request page_rows then Inl ReError
                    else if per_page request = 0 then Inl ZeroDivisionError
                    else if user \<noteq> None \<and> has_date_filter (filters request) then Inl TypeError
                    else (case get_search_facets ext db sanitized_query user_id of
                            Inl e \<Rightarrow> Inl e
                          | Inr fs \<Rightarrow>
                              Inr \<lparr>total_results = total, resp_page = page request,
                                   resp_per_page = per_page request,
                                   total_pages =
                                     (total + per_page request - 1) div per_page request,
                                   resp_facets = fs\<rparr>))"

text \<open>
  \<^verbatim>\<open>search_content\<close> as a caller sees it: a request that fails validation never
  reaches the function; the handler \<^verbatim>\<open>except Exception\<close> around the body catches every
  exception of the body (an \<^verbatim>\<open>HTTPException\<close> is an \<^verbatim>\<open>Exception\<close>) and raises status
  500. The rows of the page and the analytics records are not part of the modelled
  response.
\<close>

definition search_content ::
    "externals \<Rightarrow> database \<Rightarrow> SearchRequest \<Rightarrow> string option \<Rightarrow> error + SearchResponse" where
  "search_content ext db request user =
     (if \<not> valid_request request then Inl (HTTPException 422)
      else case search_content_body ext db request user of
             Inl e \<Rightarrow> Inl (HTTPException 500)
           | Inr response \<Rightarrow> Inr response)"


section \<open>The specification's predicates\<close>

text \<open>
  The words of the specification, as predicates of their own: a category matches a text
  when one of its keywords is a substring of it; the categories are tried in the fixed
  order; a primary keyword matches when the filter counts at least one occurrence of it.
\<close>

definition keywords_of :: "string \<Rightarrow> string list" where
  "keywords_of category = (case map_of CATEGORIES category of Some ks \<Rightarrow> ks | None \<Rightarrow> [])"

definition category_matches :: "string \<Rightarrow> string \<Rightarrow> bool" where
  "category_matches category full_text =
     (\<exists>keyword \<in> set (keywords_of category). \<exists>p s. full_text = p @ keyword @ s)"

definition first_matching_category :: "string \<Rightarrow> string" where
  "first_matching_category full_text =
     (if category_matches ''tax_reform'' full_text then ''tax_reform''
      else if category_matches ''legislation'' full_text then ''legislation''
      else if category_matches ''economy'' full_text then ''economy''
      else if category_matches ''regulation'' full_text then ''regulation''
      else ''general'')"

definition primary_keyword_matched :: "string \<Rightarrow> bool" where
  "primary_keyword_matched full_text =
     (\<exists>keyword \<in> set primary_keywords.
        0 < findall_count (normalize_text keyword) (normalize_text full_text))"

text \<open>
  The admission score of a text: \<^verbatim>\<open>calculate_relevance_score\<close> of the filter, applied to
  the matches \<^verbatim>\<open>count_keyword_matches\<close> counts in the text for the three keyword lists.
\<close>

definition admission_score :: "string \<Rightarrow> int" where
  "admission_score full_text =
     filter_calculate_relevance_score
       (count_keyword_matches full_text primary_keywords)
       (count_keyword_matches full_text secondary_keywords)
       (count_keyword_matches full_text exclusion_keywords)"

text \<open>
  The item after the two assignments of the loop body,
  \<^verbatim>\<open>item['relevance_score'] = ...\<close> and \<^verbatim>\<open>item['matched_keywords'] = ...\<close>.
\<close>

definition enriched :: "(pyval \<Rightarrow> string) \<Rightarrow> item \<Rightarrow> item" where
  "enriched fmt it =
     it(''relevance_score'' \<mapsto> PInt (relevance_score (verdict_of fmt it)),
        ''matched_keywords'' \<mapsto> PList (matched_keywords (verdict_of fmt it)))"

text \<open>The order of the three levels: low, then medium, then high.\<close>

definition priority_rank :: "string \<Rightarrow> nat" where
  "priority_rank p = (if p = ''high'' then 2 else if p = ''medium'' then 1 else 0)"

text \<open>
  An item with the field types of a feed entry: the title and the source name are strings
  (or absent), the credibility is an integer from 0 to 100 (or absent), the publication
  date is a datetime, \<^verbatim>\<open>None\<close> or absent.
\<close>

definition well_typed_item :: "item \<Rightarrow> bool" where
  "well_typed_item it =
     ((case dict_get it ''title'' (PStr []) of PStr t \<Rightarrow> True | _ \<Rightarrow> False) \<and>
      (case dict_get it ''source_name'' (PStr []) of PStr s \<Rightarrow> True | _ \<Rightarrow> False) \<and>
      (case dict_get it ''source_credibility'' (PInt 70) of
         PInt c \<Rightarrow> 0 \<le> c \<and> c \<le> 100 | _ \<Rightarrow> False) \<and>
      (case dict_get it ''pub_date'' PNone of PNone \<Rightarrow> True | PDate d \<Rightarrow> True | _ \<Rightarrow> False))"

definition enrichment_keys :: "string set" where
  "enrichment_keys = {''relevance_score'', ''priority'', ''keywords'', ''category''}"




section \<open>Example data\<close>

text \<open>A store of four items, for the concrete evaluation below.\<close>

definition demo_heap :: heap where
  "demo_heap =
     [[''title'' \<mapsto> PStr ''ibs''],
      [''title'' \<mapsto> PStr ''gol'', ''description'' \<mapsto> PStr ''pis''],
      [''title'' \<mapsto> PStr ''IBS, CBS'', ''description'' \<mapsto> PNone],
      [''title'' \<mapsto> PStr ''cbs'', ''link'' \<mapsto> PStr ''x'']]"






section \<open>Substrings\<close>

lemma starts_with_iff: "starts_with t k \<longleftrightarrow> (\<exists>s. t = k @ s)"
  by (induction t k rule: starts_with.induct) auto

lemma str_in_iff: "str_in k t \<longleftrightarrow> (\<exists>p s. t = p @ k @ s)"
proof (induction t)
  case Nil
  then show ?case by auto
next
  case (Cons c cs)
  show ?case
  proof
    assume "str_in k (c # cs)"
    then consider "starts_with (c # cs) k" | "str_in k cs" by auto
    then show "\<exists>p s. c # cs = p @ k @ s"
    proof cases
      case 1
      then obtain s where "c # cs = k @ s" by (auto simp: starts_with_iff)
      then have "c # cs = [] @ k @ s" by simp
      then show ?thesis by blast
    next
      case 2
      with Cons obtain p s where "cs = p @ k @ s" by auto
      then have "c # cs = (c # p) @ k @ s" by simp
      then show ?thesis by blast
    qed
  next
    assume "\<exists>p s. c # cs = p @ k @ s"
    then obtain p s where ps: "c # cs = p @ k @ s" by auto
    show "str_in k (c # cs)"
    proof (cases p)
      case Nil
      with ps have "\<exists>s. c # cs = k @ s" by auto
      then have "starts_with (c # cs) k" by (simp only: starts_with_iff)
      then show ?thesis by simp
    next
      case (Cons a p')
      with ps have "cs = p' @ k @ s" by simp
      with Cons.IH show ?thesis by auto
    qed
  qed
qed


section \<open>The two relevance scores\<close>

lemma match_keywords_nonneg:
  "(\<And>k w. (k, w) \<in> set tbl \<Longrightarrow> 0 \<le> w) \<Longrightarrow> 0 \<le> s \<Longrightarrow> 0 \<le> fst (match_keywords ft tbl (s, m))"
proof (induction tbl arbitrary: s m)
  case Nil
  then show ?case by simp
next
  case (Cons kw tbl)
  obtain k w where kw: "kw = (k, w)" by (cases kw)
  have w: "0 \<le> w" using Cons.prems(1)[of k w] kw by simp
  have rest: "\<And>k w. (k, w) \<in> set tbl \<Longrightarrow> 0 \<le> w" using Cons.prems(1) by auto
  have "0 \<le> fst (match_keywords ft tbl (s + w, m @ [k]))"
    by (rule Cons.IH) (use rest Cons.prems(2) w in auto)
  moreover have "0 \<le> fst (match_keywords ft tbl (s, m))"
    by (rule Cons.IH) (use rest Cons.prems(2) in auto)
  ultimately show ?case by (simp add: kw)
qed

lemma title_bonus_ge: "s \<le> title_bonus tlow ks s"
proof (induction ks arbitrary: s)
  case Nil
  then show ?case by simp
next
  case (Cons k ks)
  show ?case using Cons.IH[of "s + 20"] Cons.IH[of s] by simp
qed

lemma tax_reform_weights_nonneg: "(k, w) \<in> set TAX_REFORM_KEYWORDS \<Longrightarrow> 0 \<le> w"
  by (auto simp: TAX_REFORM_KEYWORDS_def)

lemma calculate_relevance_score_range:
  "0 \<le> calculate_relevance_score title description content \<and>
   calculate_relevance_score title description content \<le> 100"
proof -
  define ft where "ft = clean_text (lower (join3 title description content))"
  obtain sc mk where m: "match_keywords ft TAX_REFORM_KEYWORDS (0, []) = (sc, mk)"
    by (cases "match_keywords ft TAX_REFORM_KEYWORDS (0, [])")
  have "0 \<le> fst (match_keywords ft TAX_REFORM_KEYWORDS (0, []))"
    by (rule match_keywords_nonneg) (auto dest: tax_reform_weights_nonneg)
  then have sc: "0 \<le> sc" by (simp add: m)
  define sc' where "sc' = (if length mk > 1 then sc + int (length mk) * 5 else sc)"
  have sc': "0 \<le> sc'" using sc by (simp add: sc'_def)
  have "sc' \<le> title_bonus (lower title) mk sc'" by (rule title_bonus_ge)
  then have "0 \<le> title_bonus (lower title) mk sc'" using sc' by linarith
  moreover have "calculate_relevance_score title description content =
      min (title_bonus (lower title) mk sc') 100"
    by (simp add: calculate_relevance_score_def ft_def[symmetric] m sc'_def Let_def)
  ultimately show ?thesis by simp
qed

text \<open>
  C1: both relevance scores, the one of \<^verbatim>\<open>PriorityScorer\<close> on any three strings and the
  admission score of \<^verbatim>\<open>TaxReformContentFilter\<close> on any three dictionaries of counts, lie
  between 0 and 100.
\<close>

theorem relevance_scores_in_range:
  "0 \<le> calculate_relevance_score title description content \<and>
   calculate_relevance_score title description content \<le> 100 \<and>
   0 \<le> filter_calculate_relevance_score primary_matches secondary_matches exclusion_matches \<and>
   filter_calculate_relevance_score primary_matches secondary_matches exclusion_matches \<le> 100"
proof -
  have "0 \<le> filter_calculate_relevance_score primary_matches secondary_matches exclusion_matches"
    and "filter_calculate_relevance_score primary_matches secondary_matches exclusion_matches \<le> 100"
    by (simp_all add: filter_calculate_relevance_score_def Let_def)
  then show ?thesis
    using calculate_relevance_score_range[of title description content] by simp
qed


section \<open>Categories\<close>

lemma keywords_of_simps:
  "keywords_of ''tax_reform'' = snd (CATEGORIES ! 0)"
  "keywords_of ''legislation'' = snd (CATEGORIES ! 1)"
  "keywords_of ''economy'' = snd (CATEGORIES ! 2)"
  "keywords_of ''regulation'' = snd (CATEGORIES ! 3)"
  by (simp_all add: keywords_of_def CATEGORIES_def)

lemma category_matches_str_in:
  "category_matches category ft = list_ex (\<lambda>keyword. str_in keyword ft) (keywords_of category)"
  by (simp add: category_matches_def list_ex_iff str_in_iff)

lemma categorize_loop_first: "categorize_loop ft CATEGORIES = first_matching_category ft"
  unfolding first_matching_category_def category_matches_str_in keywords_of_simps
  by (simp add: CATEGORIES_def)

text \<open>
  C5: \<^verbatim>\<open>categorize_content\<close> returns one of the five categories; it is the first of
  tax\_reform, legislation, economy, regulation with a keyword occurring in the lowercased
  text \<^verbatim>\<open>f"{title} {description} {content}"\<close>, and it is general exactly when none of
  the four has one.
\<close>

theorem categorize_content_first_match:
  "categorize_content title description content
     \<in> {''tax_reform'', ''legislation'', ''economy'', ''regulation'', ''general''} \<and>
   categorize_content title description content
     = first_matching_category (lower (join3 title description content)) \<and>
   (categorize_content title description content = ''general'' \<longleftrightarrow>
     \<not> (\<exists>category \<in> {''tax_reform'', ''legislation'', ''economy'', ''regulation''}.
          category_matches category (lower (join3 title description content))))"
  unfolding categorize_content_def categorize_loop_first
  by (simp add: first_matching_category_def)


section \<open>The admission gate\<close>

lemma dict_set_not_Nil: "dict_set k v m \<noteq> []"
  by (cases m) (auto split: if_splits)

lemma count_loop_Nil_iff:
  "count_loop nt kws m = [] \<longleftrightarrow> m = [] \<and> (\<forall>kw \<in> set kws. findall_count (normalize_text kw) nt = 0)"
  by (induction kws arbitrary: m) (auto simp: Let_def dict_set_not_Nil)

lemma primary_keyword_matched_iff:
  "primary_keyword_matched ft \<longleftrightarrow> count_keyword_matches ft primary_keywords \<noteq> []"
  by (auto simp: primary_keyword_matched_def count_keyword_matches_def count_loop_Nil_iff)

lemma strip_Nil_iff: "strip s = [] \<longleftrightarrow> (\<forall>c \<in> set s. is_space c)"
proof
  assume "strip s = []"
  then have "dropWhile is_space (rev (dropWhile is_space s)) = []" by (simp add: strip_def)
  then have "\<forall>c \<in> set (dropWhile is_space s). is_space c"
    by (simp add: dropWhile_eq_Nil_conv)
  then have "dropWhile is_space s = []"
    using hd_dropWhile[of is_space s] by (cases "dropWhile is_space s") auto
  then show "\<forall>c \<in> set s. is_space c" by (simp add: dropWhile_eq_Nil_conv)
next
  assume "\<forall>c \<in> set s. is_space c"
  then have d: "dropWhile is_space s = []" by (simp add: dropWhile_eq_Nil_conv)
  show "strip s = []" unfolding strip_def d by simp
qed

lemma is_space_lower_char: "is_space (lower_char c) = is_space c"
proof -
  define n where "n = (of_char c :: int)"
  have r: "0 \<le> n" "n < 256"
    unfolding n_def by (simp_all add: of_char_def)
  show ?thesis
  proof (cases "(65 \<le> n \<and> n \<le> 90) \<or> (192 \<le> n \<and> n \<le> 222 \<and> n \<noteq> 215)")
    case False
    then have "lower_char c = c" by (auto simp: lower_char_def n_def[symmetric])
    then show ?thesis by simp
  next
    case True
    then have l: "lower_char c = char_of (n + 32)" by (simp add: lower_char_def n_def[symmetric])
    have "(of_char (char_of (n + 32) :: char) :: int) = (n + 32) mod 256" by (rule of_char_of)
    also have "\<dots> = n + 32" using True r by auto
    finally have o: "(of_char (lower_char c) :: int) = n + 32" by (simp add: l)
    have "\<not> is_space (lower_char c)" using True by (auto simp: is_space_def o)
    moreover have "\<not> is_space c" using True by (auto simp: is_space_def n_def[symmetric])
    ultimately show ?thesis by simp
  qed
qed

lemma normalize_text_blank: "strip s = [] \<Longrightarrow> normalize_text s = []"
proof -
  assume "strip s = []"
  then have "\<forall>c \<in> set s. is_space c" by (simp add: strip_Nil_iff)
  then have "\<forall>c \<in> set (lower s). is_space c" by (simp add: lower_def is_space_lower_char)
  then have "strip (lower s) = []" by (simp add: strip_Nil_iff)
  then show ?thesis by (simp add: normalize_text_def)
qed

lemma findall_count_Nil: "findall_count kw [] = 0"
  by (simp add: findall_count_def at_boundary_def)

lemma count_loop_blank: "count_loop [] kws m = m"
  by (induction kws arbitrary: m) (simp_all add: findall_count_Nil Let_def)

lemma count_keyword_matches_blank: "strip s = [] \<Longrightarrow> count_keyword_matches s kws = []"
  by (simp add: count_keyword_matches_def normalize_text_blank count_loop_blank)

lemma admission_score_blank: "strip s = [] \<Longrightarrow> admission_score s = 0"
  by (simp add: admission_score_def count_keyword_matches_blank filter_calculate_relevance_score_def)

text \<open>
  C2: the score of the verdict of \<^verbatim>\<open>filter_content\<close> is the admission score of the text
  it analyses, and the verdict is relevant exactly when a primary keyword matches that
  text and the admission score is at least 15; so it is not relevant when no primary
  keyword matches, whatever the secondary keywords add to the score.
\<close>

theorem filter_content_admission_rule:
  "relevance_score (filter_content fmt title description content) =
     admission_score (filter_full_text fmt title description content) \<and>
   (is_relevant (filter_content fmt title description content) \<longleftrightarrow>
      primary_keyword_matched (filter_full_text fmt title description content) \<and>
      15 \<le> admission_score (filter_full_text fmt title description content))"
proof (cases "strip (filter_full_text fmt title description content) = []")
  case True
  then show ?thesis
    by (simp add: filter_content_def Let_def admission_score_blank)
next
  case False
  then show ?thesis
    by (simp add: filter_content_def Let_def primary_keyword_matched_iff admission_score_def)
qed

theorem filter_content_admission_rule_witness:
  "admission_score (filter_full_text (\<lambda>v. []) (PStr ''ibs'') PNone PNone) = 20 \<and>
   relevance_score (filter_content (\<lambda>v. []) (PStr ''ibs'') PNone PNone) = 20 \<and>
   is_relevant (filter_content (\<lambda>v. []) (PStr ''ibs'') PNone PNone) \<and>
   admission_score (filter_full_text (\<lambda>v. []) (PStr ''icms iss pis cofins'') PNone PNone) = 20 \<and>
   \<not> is_relevant (filter_content (\<lambda>v. []) (PStr ''icms iss pis cofins'') PNone PNone)"
proof -
  have a: "admission_score (filter_full_text (\<lambda>v. []) (PStr ''ibs'') PNone PNone) = 20"
    by code_simp
  have b: "primary_keyword_matched (filter_full_text (\<lambda>v. []) (PStr ''ibs'') PNone PNone)"
    by code_simp
  have c: "admission_score (filter_full_text (\<lambda>v. []) (PStr ''icms iss pis cofins'') PNone PNone) = 20"
    by code_simp
  have d: "\<not> primary_keyword_matched
             (filter_full_text (\<lambda>v. []) (PStr ''icms iss pis cofins'') PNone PNone)"
    by code_simp
  from filter_content_admission_rule[of "\<lambda>v. []" "PStr ''ibs''" PNone PNone]
    filter_content_admission_rule[of "\<lambda>v. []" "PStr ''icms iss pis cofins''" PNone PNone] a b c d
  show ?thesis by simp
qed

text \<open>
  C8, as the code has it: an accepted verdict carries no reason; a rejected verdict on a
  text that is not blank carries the reason \<^verbatim>\<open>No tax reform keywords found\<close> when no
  primary keyword matched, and otherwise its score is below 15 and the reason is
  \<^verbatim>\<open>Low relevance score: \<close> followed by that score.
\<close>

theorem filter_reason_by_verdict:
  "(is_relevant (filter_content fmt title description content) \<longrightarrow>
      filter_reason (filter_content fmt title description content) = None) \<and>
   (\<not> is_relevant (filter_content fmt title description content) \<and>
    strip (filter_full_text fmt title description content) \<noteq> [] \<and>
    \<not> primary_keyword_matched (filter_full_text fmt title description content) \<longrightarrow>
      filter_reason (filter_content fmt title description content) =
        Some ''No tax reform keywords found'') \<and>
   (\<not> is_relevant (filter_content fmt title description content) \<and>
    strip (filter_full_text fmt title description content) \<noteq> [] \<and>
    primary_keyword_matched (filter_full_text fmt title description content) \<longrightarrow>
      relevance_score (filter_content fmt title description content) < 15 \<and>
      filter_reason (filter_content fmt title description content) =
        Some (''Low relevance score: '' @
              str_int (relevance_score (filter_content fmt title description content))))"
  by (simp add: filter_content_def Let_def primary_keyword_matched_iff)

theorem filter_reason_by_verdict_witness:
  "filter_reason (filter_content (\<lambda>v. []) (PStr ''ibs'') PNone PNone) = None \<and>
   filter_reason (filter_content (\<lambda>v. []) (PStr ''gol'') PNone PNone) =
     Some ''No tax reform keywords found'' \<and>
   filter_reason (filter_content (\<lambda>v. []) (PStr ''ibs show'') PNone PNone) =
     Some ''Low relevance score: 10''"
proof -
  have a: "is_relevant (filter_content (\<lambda>v. []) (PStr ''ibs'') PNone PNone)"
    by code_simp
  have b: "\<not> is_relevant (filter_content (\<lambda>v. []) (PStr ''gol'') PNone PNone) \<and>
    strip (filter_full_text (\<lambda>v. []) (PStr ''gol'') PNone PNone) \<noteq> [] \<and>
    \<not> primary_keyword_matched (filter_full_text (\<lambda>v. []) (PStr ''gol'') PNone PNone)"
    by code_simp
  have c: "\<not> is_relevant (filter_content (\<lambda>v. []) (PStr ''ibs show'') PNone PNone) \<and>
    strip (filter_full_text (\<lambda>v. []) (PStr ''ibs show'') PNone PNone) \<noteq> [] \<and>
    primary_keyword_matched (filter_full_text (\<lambda>v. []) (PStr ''ibs show'') PNone PNone)"
    by code_simp
  have d: "str_int (relevance_score (filter_content (\<lambda>v. []) (PStr ''ibs show'') PNone PNone)) = ''10''"
    by code_simp
  note t = filter_reason_by_verdict[where fmt = "\<lambda>v. []" and description = PNone and content = PNone]
  from t[of "PStr ''ibs''"] a
  have 1: "filter_reason (filter_content (\<lambda>v. []) (PStr ''ibs'') PNone PNone) = None"
    by blast
  from t[of "PStr ''gol''"] b
  have 2: "filter_reason (filter_content (\<lambda>v. []) (PStr ''gol'') PNone PNone) =
     Some ''No tax reform keywords found''"
    by blast
  from t[of "PStr ''ibs show''"] c
  have "filter_reason (filter_content (\<lambda>v. []) (PStr ''ibs show'') PNone PNone) =
     Some (''Low relevance score: '' @
       str_int (relevance_score (filter_content (\<lambda>v. []) (PStr ''ibs show'') PNone PNone)))"
    by blast
  then have 3: "filter_reason (filter_content (\<lambda>v. []) (PStr ''ibs show'') PNone PNone) =
     Some ''Low relevance score: 10''"
    by (simp only: d) simp
  from 1 2 3 show ?thesis by blast
qed

text \<open>
  The reason given when no primary keyword matches is not the text
  \<^verbatim>\<open>no primary keyword found\<close>.
\<close>

theorem filter_reason_wording_counterexample:
  "\<not> is_relevant (filter_content (\<lambda>v. []) (PStr ''Jogo de futebol'') (PStr []) (PStr [])) \<and>
   filter_reason (filter_content (\<lambda>v. []) (PStr ''Jogo de futebol'') (PStr []) (PStr [])) =
     Some ''No tax reform keywords found'' \<and>
   filter_reason (filter_content (\<lambda>v. []) (PStr ''Jogo de futebol'') (PStr []) (PStr [])) \<noteq>
     Some ''no primary keyword found''"
  by code_simp


section \<open>The batch filter\<close>

lemma verdict_of_enriched: "verdict_of fmt (enriched fmt it) = verdict_of fmt it"
  by (simp add: verdict_of_def enriched_def dict_get_def)

lemma enriched_idem: "enriched fmt (enriched fmt it) = enriched fmt it"
proof -
  have "enriched fmt (enriched fmt it) =
        (enriched fmt it)(''relevance_score'' \<mapsto> PInt (relevance_score (verdict_of fmt it)),
           ''matched_keywords'' \<mapsto> PList (matched_keywords (verdict_of fmt it)))"
    by (subst enriched_def) (simp only: verdict_of_enriched)
  also have "\<dots> = enriched fmt it"
    by (simp add: enriched_def)
  finally show ?thesis .
qed

lemma filter_loop_result:
  assumes "\<forall>a \<in> set items. a < length h"
  shows "filter_loop fmt h items acc =
     (map (\<lambda>b. if b \<in> set (filter (\<lambda>a. is_relevant (verdict_of fmt (h ! a))) items)
                then enriched fmt (h ! b) else h ! b) [0 ..< length h],
      acc @ filter (\<lambda>a. is_relevant (verdict_of fmt (h ! a))) items)"
  using assms
proof (induction items arbitrary: h acc)
  case Nil
  then show ?case by (simp add: map_nth)
next
  case (Cons a rest)
  have a: "a < length h" using Cons.prems by simp
  show ?case
  proof (cases "is_relevant (verdict_of fmt (h ! a))")
    case False
    then show ?thesis using Cons by (simp add: Let_def)
  next
    case True
    define h1 where "h1 = h[a := enriched fmt (h ! a)]"
    have len: "length h1 = length h" by (simp add: h1_def)
    have nth: "h1 ! b = (if b = a then enriched fmt (h ! a) else h ! b)" if "b < length h" for b
      using that by (simp add: h1_def nth_list_update)
    have v: "verdict_of fmt (h1 ! b) = verdict_of fmt (h ! b)" if "b < length h" for b
      using nth[OF that] by (simp add: verdict_of_enriched)
    have f: "filter (\<lambda>a. is_relevant (verdict_of fmt (h1 ! a))) rest =
             filter (\<lambda>a. is_relevant (verdict_of fmt (h ! a))) rest"
      by (rule filter_cong) (use Cons.prems v in auto)
    have IH: "filter_loop fmt h1 rest (acc @ [a]) =
       (map (\<lambda>b. if b \<in> set (filter (\<lambda>a. is_relevant (verdict_of fmt (h1 ! a))) rest)
                then enriched fmt (h1 ! b) else h1 ! b) [0 ..< length h1],
        (acc @ [a]) @ filter (\<lambda>a. is_relevant (verdict_of fmt (h1 ! a))) rest)"
      by (rule Cons.IH) (use Cons.prems len in auto)
    have m: "map (\<lambda>b. if b \<in> set (filter (\<lambda>a. is_relevant (verdict_of fmt (h ! a))) rest)
                then enriched fmt (h1 ! b) else h1 ! b) [0 ..< length h] =
          map (\<lambda>b. if b \<in> set (filter (\<lambda>a. is_relevant (verdict_of fmt (h ! a))) (a # rest))
                then enriched fmt (h ! b) else h ! b) [0 ..< length h]"
      by (rule map_cong) (use True nth in \<open>auto simp: enriched_idem\<close>)
    have step: "filter_loop fmt h (a # rest) acc = filter_loop fmt h1 rest (acc @ [a])"
      using True by (simp add: Let_def h1_def enriched_def)
    have tail: "(acc @ [a]) @ filter (\<lambda>a. is_relevant (verdict_of fmt (h ! a))) rest =
                acc @ filter (\<lambda>a. is_relevant (verdict_of fmt (h ! a))) (a # rest)"
      using True by simp
    show ?thesis by (simp only: step IH f len m tail)
  qed
qed

lemma sort_key_cong_on: "(\<And>x. x \<in> set xs \<Longrightarrow> f x = g x) \<Longrightarrow> sort_key f xs = sort_key g xs"
proof (induction xs)
  case Nil
  then show ?case by simp
next
  case (Cons x xs)
  have ins: "insort_key f y ys = insort_key g y ys"
    if "f y = g y" "\<And>z. z \<in> set ys \<Longrightarrow> f z = g z" for y ys
    using that by (induction ys) auto
  have "sort_key f xs = sort_key g xs" using Cons by simp
  moreover have "insort_key f x (sort_key g xs) = insort_key g x (sort_key g xs)"
    by (rule ins) (use Cons.prems in auto)
  ultimately show ?case by simp
qed

lemma sort_desc_props:
  "mset (sort_desc key xs) = mset xs"
  "sorted_wrt (\<lambda>x y. x \<ge> y) (map key (sort_desc key xs))"
  "filter (\<lambda>x. key x = k) (sort_desc key xs) = filter (\<lambda>x. key x = k) xs"
proof -
  show "mset (sort_desc key xs) = mset xs" by (simp add: sort_desc_def)
  have "sorted (map (\<lambda>x. - key x) (sort_desc key xs))"
    unfolding sort_desc_def by (rule sorted_sort_key)
  then show "sorted_wrt (\<lambda>x y. x \<ge> y) (map key (sort_desc key xs))"
    by (simp add: sorted_wrt_map sorted_map)
  have "filter (\<lambda>x. - key x = - k) (sort_desc key xs) = filter (\<lambda>x. - key x = - k) xs"
    unfolding sort_desc_def by (rule sort_key_stable)
  then show "filter (\<lambda>x. key x = k) (sort_desc key xs) = filter (\<lambda>x. key x = k) xs" by simp
qed

text \<open>
  C6: \<^verbatim>\<open>filter_items_list\<close> returns the items judged relevant, with their multiplicity,
  each holding its score and matched keywords under the two keys (every other object of
  the store is as it was); the result is in descending order of score, and the items of
  any one score stand in the order they had in the input list.
\<close>

theorem filter_items_list_sorted_stable:
  assumes "\<forall>a \<in> set items. a < length h"
    and "filter_items_list fmt h items = (h', out)"
  shows "mset out = mset (filter (\<lambda>a. is_relevant (verdict_of fmt (h ! a))) items) \<and>
     length h' = length h \<and>
     (\<forall>a < length h. h' ! a = (if a \<in> set out then enriched fmt (h ! a) else h ! a)) \<and>
     sorted_wrt (\<lambda>x y. x \<ge> y) (map (\<lambda>a. relevance_score (verdict_of fmt (h ! a))) out) \<and>
     (\<forall>k. filter (\<lambda>a. relevance_score (verdict_of fmt (h ! a)) = k) out =
          filter (\<lambda>a. is_relevant (verdict_of fmt (h ! a)) \<and>
                      relevance_score (verdict_of fmt (h ! a)) = k) items)"
proof -
  define rel where "rel = filter (\<lambda>a. is_relevant (verdict_of fmt (h ! a))) items"
  define hm where "hm = map (\<lambda>b. if b \<in> set rel then enriched fmt (h ! b) else h ! b) [0 ..< length h]"
  have loop: "filter_loop fmt h items [] = (hm, rel)"
    using filter_loop_result[OF assms(1), of fmt "[]"] by (simp add: hm_def rel_def)
  have h': "h' = hm" and out: "out = sort_desc (score_key hm) rel"
    using assms(2) by (auto simp: filter_items_list_def loop)
  have key: "score_key hm a = relevance_score (verdict_of fmt (h ! a))" if "a \<in> set rel" for a
  proof -
    have "a < length h" using that assms(1) by (auto simp: rel_def)
    then have "hm ! a = enriched fmt (h ! a)" using that by (simp add: hm_def)
    then show ?thesis by (simp add: score_key_def enriched_def dict_get_def)
  qed
  have out': "out = sort_desc (\<lambda>a. relevance_score (verdict_of fmt (h ! a))) rel"
    unfolding out sort_desc_def by (rule sort_key_cong_on) (simp add: key)
  have set_out: "set out = set rel" by (simp add: out' sort_desc_def)
  have 1: "mset out = mset rel" by (simp add: out' sort_desc_props)
  have 2: "length h' = length h" by (simp add: h' hm_def)
  have 3: "\<forall>a < length h. h' ! a = (if a \<in> set out then enriched fmt (h ! a) else h ! a)"
    by (simp add: h' hm_def set_out)
  have 4: "sorted_wrt (\<lambda>x y. x \<ge> y) (map (\<lambda>a. relevance_score (verdict_of fmt (h ! a))) out)"
    unfolding out' by (rule sort_desc_props)
  have 5: "filter (\<lambda>a. relevance_score (verdict_of fmt (h ! a)) = k) out =
          filter (\<lambda>a. is_relevant (verdict_of fmt (h ! a)) \<and>
                      relevance_score (verdict_of fmt (h ! a)) = k) items" for k
    unfolding out' by (simp add: sort_desc_props rel_def conj_commute)
  from 1 2 3 4 5 show ?thesis by (simp add: rel_def)
qed

theorem filter_items_list_sorted_stable_witness:
  "snd (filter_items_list (\<lambda>v. []) demo_heap [0, 1, 2, 3]) = [2, 0, 3] \<and>
   mset (snd (filter_items_list (\<lambda>v. []) demo_heap [0, 1, 2, 3])) =
     mset (filter (\<lambda>a. is_relevant (verdict_of (\<lambda>v. []) (demo_heap ! a))) [0, 1, 2, 3]) \<and>
   sorted_wrt (\<lambda>x y. x \<ge> y)
     (map (\<lambda>a. relevance_score (verdict_of (\<lambda>v. []) (demo_heap ! a)))
        (snd (filter_items_list (\<lambda>v. []) demo_heap [0, 1, 2, 3])))"
proof -
  have v: "\<forall>a \<in> set [0, 1, 2, 3]. a < length demo_heap"
    by (simp add: demo_heap_def)
  have e: "filter_items_list (\<lambda>v. []) demo_heap [0, 1, 2, 3] =
      (fst (filter_items_list (\<lambda>v. []) demo_heap [0, 1, 2, 3]),
       snd (filter_items_list (\<lambda>v. []) demo_heap [0, 1, 2, 3]))"
    by simp
  have r: "snd (filter_items_list (\<lambda>v. []) demo_heap [0, 1, 2, 3]) = [2, 0, 3]"
    by code_simp
  from filter_items_list_sorted_stable[OF v e] r show ?thesis
    by blast
qed


section \<open>Rounding is monotone\<close>

lemma log2_ge1_bounds: "1 \<le> x \<Longrightarrow> 2 ^ log2_ge1 x \<le> x \<and> x < 2 ^ Suc (log2_ge1 x)"
proof (induction x rule: log2_ge1.induct)
  case (1 x)
  show ?case
  proof (cases "x < 2")
    case True
    then show ?thesis using "1.prems" by (simp add: log2_ge1.simps[of x])
  next
    case False
    then have "1 \<le> x / 2" by simp
    with "1.IH" False have "2 ^ log2_ge1 (x / 2) \<le> x / 2 \<and> x / 2 < 2 ^ Suc (log2_ge1 (x / 2))"
      by simp
    then show ?thesis using False by (simp add: log2_ge1.simps[of x])
  qed
qed

lemma ilog2_bounds:
  assumes "0 < x"
  shows "2 powi (ilog2 x) \<le> x" and "x < 2 powi (ilog2 x + 1)"
proof -
  show "2 powi (ilog2 x) \<le> x"
  proof (cases "1 \<le> x")
    case True
    then show ?thesis using log2_ge1_bounds[of x] by (simp add: ilog2_def)
  next
    case False
    then have t: "1 \<le> 1 / x" using assms by simp
    define k where "k = log2_ge1 (1 / x)"
    have b: "2 ^ k \<le> 1 / x" "1 / x < 2 ^ Suc k"
      using log2_ge1_bounds[OF t] by (simp_all add: k_def)
    show ?thesis
    proof (cases "2 ^ k = 1 / x")
      case True
      then have "x = 1 / 2 ^ k" using assms by (simp add: field_simps)
      then show ?thesis using False True
        by (simp add: ilog2_def k_def[symmetric] power_int_minus_divide)
    next
      case ne: False
      have "1 / 2 ^ Suc k < x" using b(2) assms by (simp add: field_simps)
      moreover have "2 powi (- int k - 1) = (1 / 2 ^ Suc k :: rat)"
      proof -
        have e: "- int k - 1 = - int (Suc k)" by simp
        have "(2::rat) powi (- int (Suc k)) = 1 / 2 powi (int (Suc k))"
          by (rule power_int_minus_divide)
        also have "\<dots> = 1 / 2 ^ Suc k" by (simp only: power_int_of_nat)
        finally show ?thesis by (simp only: e)
      qed
      ultimately show ?thesis using False ne
        by (simp add: ilog2_def k_def[symmetric] Let_def)
    qed
  qed
  show "x < 2 powi (ilog2 x + 1)"
  proof (cases "1 \<le> x")
    case True
    then have "x < 2 ^ Suc (log2_ge1 x)" using log2_ge1_bounds[of x] by simp
    moreover have "(2::rat) powi (int (log2_ge1 x) + 1) = 2 ^ Suc (log2_ge1 x)"
      using power_int_of_nat[of "2::rat" "Suc (log2_ge1 x)"] by (simp add: add.commute)
    ultimately show ?thesis using True by (simp add: ilog2_def)
  next
    case False
    then have t: "1 \<le> 1 / x" using assms by simp
    define k where "k = log2_ge1 (1 / x)"
    have b: "2 ^ k \<le> 1 / x" "1 / x < 2 ^ Suc k"
      using log2_ge1_bounds[OF t] by (simp_all add: k_def)
    show ?thesis
    proof (cases "2 ^ k = 1 / x")
      case True
      then have "x = 1 / 2 ^ k" using assms by (simp add: field_simps)
      moreover have "(2::rat) powi (- int k) < 2 powi (- int k + 1)"
        by (rule power_int_strict_increasing) simp_all
      ultimately show ?thesis using False True
        by (simp add: ilog2_def k_def[symmetric] power_int_minus_divide)
    next
      case ne: False
      have "x \<le> 1 / 2 ^ k" using b(1) assms by (simp add: field_simps)
      moreover have "x \<noteq> 1 / 2 ^ k" using ne assms by (auto simp: field_simps)
      ultimately have "x < 1 / 2 ^ k" by simp
      then show ?thesis using False ne
        by (simp add: ilog2_def k_def[symmetric] Let_def power_int_minus_divide)
    qed
  qed
qed

lemma round_half_even_of_int: "round_half_even (of_int k) = k"
  by (simp add: round_half_even_def)

lemma round_half_even_bounds: "\<lfloor>m\<rfloor> \<le> round_half_even m" "round_half_even m \<le> \<lfloor>m\<rfloor> + 1"
  by (simp_all add: round_half_even_def Let_def)

lemma round_half_even_mono: "m \<le> n \<Longrightarrow> round_half_even m \<le> round_half_even n"
proof -
  assume mn: "m \<le> n"
  then have fl: "\<lfloor>m\<rfloor> \<le> \<lfloor>n\<rfloor>" by (rule floor_mono)
  show ?thesis
  proof (cases "\<lfloor>m\<rfloor> = \<lfloor>n\<rfloor>")
    case True
    then show ?thesis using mn by (auto simp: round_half_even_def Let_def)
  next
    case False
    then have "\<lfloor>m\<rfloor> + 1 \<le> \<lfloor>n\<rfloor>" using fl by simp
    then show ?thesis using round_half_even_bounds(2)[of m] round_half_even_bounds(1)[of n]
      by linarith
  qed
qed

lemma fl_zero: "fl 0 = 0"
  by (simp add: fl_def)

lemma fl_mono_pos:
  assumes "0 < x" and "x \<le> y"
  shows "fl x \<le> fl y"
proof -
  define ex where "ex = max (ilog2 x) (- 1022)"
  define ey where "ey = max (ilog2 y) (- 1022)"
  define ux where "ux = (2::rat) powi (ex - 52)"
  define uy where "uy = (2::rat) powi (ey - 52)"
  have y: "0 < y" using assms by simp
  have ux: "0 < ux" and uy: "0 < uy" by (simp_all add: ux_def uy_def)
  have fx: "fl x = of_int (round_half_even (x / ux)) * ux"
    using assms(1) by (simp add: fl_def Let_def ex_def ux_def)
  have fy: "fl y = of_int (round_half_even (y / uy)) * uy"
    using y by (simp add: fl_def Let_def ey_def uy_def)
  have "2 powi (ilog2 x) \<le> x" by (rule ilog2_bounds[OF assms(1)])
  also have "x \<le> y" by fact
  also have "y < 2 powi (ilog2 y + 1)" by (rule ilog2_bounds[OF y])
  finally have "(2::rat) powi (ilog2 x) < 2 powi (ilog2 y + 1)" .
  then have "ilog2 x < ilog2 y + 1"
    using power_int_increasing[of "ilog2 y + 1" "ilog2 x" "2::rat"] by (cases "ilog2 x < ilog2 y + 1") auto
  then have le: "ex \<le> ey" by (simp add: ex_def ey_def)
  show ?thesis
  proof (cases "ex = ey")
    case True
    then have "ux = uy" by (simp add: ux_def uy_def)
    moreover have "round_half_even (x / uy) \<le> round_half_even (y / uy)"
      by (rule round_half_even_mono) (use assms uy in \<open>simp add: divide_right_mono\<close>)
    ultimately show ?thesis using uy by (simp add: fx fy)
  next
    case False
    then have lt: "ex < ey" using le by simp
    then have eyy: "ey = ilog2 y" unfolding ex_def ey_def by linarith
    have "x < 2 powi (ilog2 x + 1)" by (rule ilog2_bounds[OF assms(1)])
    also have "\<dots> \<le> 2 powi (ex + 1)"
      by (rule power_int_increasing) (simp_all add: ex_def)
    finally have "x / ux \<le> 2 powi (ex + 1) / ux" using ux by (simp add: divide_right_mono)
    also have "2 powi (ex + 1) / ux = (2::rat) powi 53"
      unfolding ux_def by (subst power_int_diff[symmetric]) simp_all
    finally have "x / ux \<le> of_int (2 ^ 53)" by simp
    then have "round_half_even (x / ux) \<le> round_half_even (of_int (2 ^ 53))"
      by (rule round_half_even_mono)
    then have "round_half_even (x / ux) \<le> 2 ^ 53" by (simp only: round_half_even_of_int)
    then have "(of_int (round_half_even (x / ux)) :: rat) \<le> of_int (2 ^ 53)"
      by (simp only: of_int_le_iff)
    then have "fl x \<le> 2 ^ 53 * ux" using ux by (simp add: fx)
    also have "2 ^ 53 * ux = (2::rat) powi (ex + 1)"
    proof -
      have "(2::rat) powi 53 * 2 powi (ex - 52) = 2 powi (53 + (ex - 52))"
        by (rule power_int_add[symmetric]) simp
      then show ?thesis by (simp add: ux_def add.commute)
    qed
    also have "\<dots> \<le> 2 powi ey"
      by (rule power_int_increasing) (use lt in simp_all)
    also have "\<dots> = 2 ^ 52 * uy"
    proof -
      have "(2::rat) powi 52 * 2 powi (ey - 52) = 2 powi (52 + (ey - 52))"
        by (rule power_int_add[symmetric]) simp
      then show ?thesis by (simp add: uy_def)
    qed
    also have "\<dots> \<le> fl y"
    proof -
      have "2 powi ey \<le> y" unfolding eyy by (rule ilog2_bounds[OF y])
      then have "2 powi ey / uy \<le> y / uy" using uy by (simp add: divide_right_mono)
      moreover have "2 powi ey / uy = (2::rat) powi 52"
        unfolding uy_def by (subst power_int_diff[symmetric]) simp_all
      ultimately have "of_int (2 ^ 52) \<le> y / uy" by simp
      then have "round_half_even (of_int (2 ^ 52)) \<le> round_half_even (y / uy)"
        by (rule round_half_even_mono)
      then have "2 ^ 52 \<le> round_half_even (y / uy)" by (simp only: round_half_even_of_int)
      then have "(of_int (2 ^ 52) :: rat) \<le> of_int (round_half_even (y / uy))"
        by (simp only: of_int_le_iff)
      then show ?thesis using uy by (simp add: fy)
    qed
    finally show ?thesis .
  qed
qed

lemma floor_minus_nonint:
  fixes m :: rat
  assumes "m \<noteq> of_int \<lfloor>m\<rfloor>"
  shows "\<lfloor>- m\<rfloor> = - \<lfloor>m\<rfloor> - 1"
proof (rule floor_unique)
  have "m < of_int \<lfloor>m\<rfloor> + 1" by linarith
  then show "of_int (- \<lfloor>m\<rfloor> - 1) \<le> - m" by simp
  have "of_int \<lfloor>m\<rfloor> < m"
    by (metis assms of_int_floor_le order_le_less)
  then show "- m < of_int (- \<lfloor>m\<rfloor> - 1) + 1" by simp
qed

lemma round_half_even_minus: "round_half_even (- m) = - round_half_even m"
proof (cases "m = of_int \<lfloor>m\<rfloor>")
  case True
  then obtain k where "m = of_int k" ..
  then have "- m = of_int (- k)" by simp
  then show ?thesis using \<open>m = of_int k\<close> by (simp only: round_half_even_of_int)
next
  case False
  note f = floor_minus_nonint[OF False]
  have lt: "of_int \<lfloor>m\<rfloor> < m"
    by (metis False of_int_floor_le order_le_less)
  show ?thesis
    unfolding round_half_even_def Let_def f using lt
    by (auto simp: field_simps)
qed

lemma fl_minus: "fl (- x) = - fl x"
  by (simp add: fl_def Let_def round_half_even_minus)

lemma fl_mono: "x \<le> y \<Longrightarrow> fl x \<le> fl y"
proof -
  assume xy: "x \<le> y"
  have nonneg: "0 \<le> fl z" if "0 \<le> z" for z
  proof (cases "z = 0")
    case True
    then show ?thesis by (simp add: fl_zero)
  next
    case False
    with that have z: "0 < z" by simp
    have "(2::rat) powi (max (ilog2 z) (- 1022) - 52) > 0" by simp
    moreover have "0 \<le> round_half_even (z / 2 powi (max (ilog2 z) (- 1022) - 52))"
      using round_half_even_mono[of 0 "z / 2 powi (max (ilog2 z) (- 1022) - 52)"] z
      by (simp add: round_half_even_def)
    ultimately show ?thesis using z by (simp add: fl_def Let_def)
  qed
  consider "0 < x" | "x \<le> 0" "0 \<le> y" | "y < 0" using xy by linarith
  then show ?thesis
  proof cases
    case 1
    then show ?thesis using xy by (rule fl_mono_pos)
  next
    case 2
    have "0 \<le> fl (- x)" using 2 by (intro nonneg) simp
    then have "fl x \<le> 0" by (simp add: fl_minus)
    moreover have "0 \<le> fl y" using 2 by (intro nonneg)
    ultimately show ?thesis by simp
  next
    case 3
    then have "fl (- y) \<le> fl (- x)" using xy by (intro fl_mono_pos) simp_all
    then show ?thesis by (simp add: fl_minus)
  qed
qed

lemma fl_nonneg: "0 \<le> x \<Longrightarrow> 0 \<le> fl x"
  using fl_mono[of 0 x] by (simp add: fl_zero)

lemma fl_one: "fl 1 = 1"
  by code_simp


section \<open>Priority\<close>

lemma find_multiplier_nonneg:
  "(\<And>k m. (k, m) \<in> set tbl \<Longrightarrow> 0 \<le> m) \<Longrightarrow> 0 \<le> find_multiplier s tbl"
proof (induction tbl)
  case Nil
  then show ?case by (simp add: fl_one)
next
  case (Cons km tbl)
  obtain k m where km: "km = (k, m)" by (cases km)
  have "0 \<le> m" using Cons.prems[of k m] km by simp
  moreover have "0 \<le> find_multiplier s tbl" by (rule Cons.IH) (use Cons.prems in auto)
  ultimately show ?case by (simp add: km)
qed

lemma source_multiplier_nonneg: "0 \<le> find_multiplier s SOURCE_MULTIPLIERS"
  by (rule find_multiplier_nonneg) (auto simp: SOURCE_MULTIPLIERS_def intro!: fl_nonneg)

lemma find_multiplier_default:
  "\<forall>k \<in> set (map fst tbl). \<not> str_in k s \<Longrightarrow> find_multiplier s tbl = 1"
  by (induction tbl) (auto simp: fl_one)

lemma credibility_factor_mono:
  assumes "c1 \<le> c2"
    and "credibility_factor (PInt c1) = Inr f1" and "credibility_factor (PInt c2) = Inr f2"
  shows "f1 \<le> f2"
proof -
  have f1: "f1 = fl (fl (7 / 10) + fl (fl (of_int c1 / 100) * fl (6 / 10)))"
    using assms(2) by (auto simp: credibility_factor_def int_truediv_def Let_def split: if_splits)
  have f2: "f2 = fl (fl (7 / 10) + fl (fl (of_int c2 / 100) * fl (6 / 10)))"
    using assms(3) by (auto simp: credibility_factor_def int_truediv_def Let_def split: if_splits)
  have "(of_int c1 :: rat) / 100 \<le> of_int c2 / 100" using assms(1) by simp
  then have "fl (of_int c1 / 100) \<le> fl (of_int c2 / 100)" by (rule fl_mono)
  moreover have "0 \<le> fl (6 / 10)" by (rule fl_nonneg) simp
  ultimately have "fl (of_int c1 / 100) * fl (6 / 10) \<le> fl (of_int c2 / 100) * fl (6 / 10)"
    by (rule mult_right_mono)
  then have "fl (fl (of_int c1 / 100) * fl (6 / 10)) \<le> fl (fl (of_int c2 / 100) * fl (6 / 10))"
    by (rule fl_mono)
  then have "fl (7 / 10) + fl (fl (of_int c1 / 100) * fl (6 / 10)) \<le>
             fl (7 / 10) + fl (fl (of_int c2 / 100) * fl (6 / 10))"
    by simp
  then show ?thesis unfolding f1 f2 by (rule fl_mono)
qed

lemma final_score_mono:
  assumes "0 \<le> relevance" and "0 \<le> m" and "f1 \<le> f2"
  shows "final_score relevance m f1 b \<le> final_score relevance m f2 b"
proof -
  have "0 \<le> fl (of_int relevance * m)" using assms(1,2) by (intro fl_nonneg) simp
  then have "fl (of_int relevance * m) * f1 \<le> fl (of_int relevance * m) * f2"
    using assms(3) by (rule mult_left_mono[rotated])
  then have "fl (fl (of_int relevance * m) * f1) \<le> fl (fl (of_int relevance * m) * f2)"
    by (rule fl_mono)
  then have "fl (fl (of_int relevance * m) * f1) + of_int b \<le>
             fl (fl (of_int relevance * m) * f2) + of_int b"
    by simp
  then show ?thesis unfolding final_score_def by (rule fl_mono)
qed

lemma priority_level_mono: "s1 \<le> s2 \<Longrightarrow> priority_rank (priority_level s1) \<le> priority_rank (priority_level s2)"
  by (simp add: priority_level_def priority_rank_def)

lemma calculate_priority_mono:
  assumes "c1 \<le> c2"
    and "calculate_priority fmt now title description content (PInt c1) source_name pub_date = Inr p1"
    and "calculate_priority fmt now title description content (PInt c2) source_name pub_date = Inr p2"
  shows "priority_rank p1 \<le> priority_rank p2"
proof -
  from assms(2) obtain r name f1 b where
    r: "call_calculate_relevance_score fmt title description content = Inr r"
    and n: "source_name = PStr name"
    and f1: "credibility_factor (PInt c1) = Inr f1"
    and b: "recency_bonus now pub_date = Inr b"
    and p1: "p1 = priority_level (final_score r (find_multiplier (lower name) SOURCE_MULTIPLIERS) f1 b)"
    by (auto simp: calculate_priority_def Let_def split: sum.splits pyval.splits)
  from assms(3) r n b obtain f2 where
    f2: "credibility_factor (PInt c2) = Inr f2"
    and p2: "p2 = priority_level (final_score r (find_multiplier (lower name) SOURCE_MULTIPLIERS) f2 b)"
    by (auto simp: calculate_priority_def Let_def split: sum.splits pyval.splits)
  have "0 \<le> r" using r calculate_relevance_score_range
    by (auto simp: call_calculate_relevance_score_def split: pyval.splits)
  moreover have "f1 \<le> f2" using assms(1) f1 f2 by (rule credibility_factor_mono)
  ultimately have "final_score r (find_multiplier (lower name) SOURCE_MULTIPLIERS) f1 b \<le>
                   final_score r (find_multiplier (lower name) SOURCE_MULTIPLIERS) f2 b"
    using source_multiplier_nonneg by (intro final_score_mono)
  then show ?thesis unfolding p1 p2 by (rule priority_level_mono)
qed

lemma int_truediv_in_range:
  assumes "0 \<le> c" and "c \<le> 100"
  shows "int_truediv c 100 = Inr (fl (of_int c / 100))"
proof -
  have "0 \<le> fl (of_int c / 100)" using assms(1) by (intro fl_nonneg) simp
  moreover have "fl (of_int c / 100) \<le> fl 1" using assms(2) by (intro fl_mono) simp
  moreover have "(1::rat) < 2 powi 1024" by simp
  ultimately have "\<bar>fl (of_int c / 100)\<bar> < 2 powi 1024" by (simp add: fl_one)
  then show ?thesis by (simp add: int_truediv_def Let_def)
qed

lemma calculate_priority_returns:
  assumes "0 \<le> c" and "c \<le> 100" and "pub_date = PNone \<or> (\<exists>d. pub_date = PDate d)"
  shows "\<exists>p. calculate_priority fmt now (PStr t) description content (PInt c) (PStr s) pub_date = Inr p"
proof -
  have "\<exists>b. recency_bonus now pub_date = Inr b"
    using assms(3) by (auto simp: recency_bonus_def Let_def)
  then show ?thesis
    by (auto simp: calculate_priority_def call_calculate_relevance_score_def credibility_factor_def
        int_truediv_in_range[OF assms(1,2)] Let_def)
qed

lemma demo_relevance_60: "calculate_relevance_score ''x'' ''simples nacional'' [] = 60"
  by code_simp

lemma demo_source_unlisted: "\<forall>k \<in> set (map fst SOURCE_MULTIPLIERS). \<not> str_in k (lower ''Blog'')"
  by (simp add: SOURCE_MULTIPLIERS_def) code_simp

lemma credibility_factor_0: "credibility_factor (PInt 0) = Inr (fl (7 / 10))"
  by code_simp

lemma final_score_60: "final_score 60 1 (fl (7 / 10)) 0 = 42"
  by code_simp

lemma priority_level_60_credibility_100:
  "priority_level (final_score 60 1 (fl (fl (7 / 10) + fl (fl 1 * fl (3 / 5)))) 0) = ''medium''"
  by code_simp

lemma calculate_priority_relevance_60:
  assumes "calculate_relevance_score title description content = 60"
    and "\<forall>k \<in> set (map fst SOURCE_MULTIPLIERS). \<not> str_in k (lower source_name)"
  shows "calculate_priority fmt now (PStr title) (PStr description) (PStr content) (PInt 0)
           (PStr source_name) PNone = Inr ''low''"
  using assms(1) find_multiplier_default[OF assms(2)]
  by (simp add: calculate_priority_def call_calculate_relevance_score_def fstr_def
      credibility_factor_0 recency_bonus_def final_score_60 priority_level_def)

text \<open>
  C4: for credibilities \<open>c1 \<le> c2\<close> and all other arguments equal, the credibility factor
  at \<open>c1\<close> is at most the one at \<open>c2\<close>, and the priority at \<open>c1\<close> is at most the one at
  \<open>c2\<close> in the order low, medium, high, whenever both calls return; and they return for
  credibilities from 0 to 100 when the title and the source name are strings and the
  publication date is a datetime or \<^verbatim>\<open>None\<close>. The factors and scores are the floats the
  code computes.
\<close>

theorem calculate_priority_mono_credibility:
  assumes "c1 \<le> c2"
  shows "(\<forall>f1 f2. credibility_factor (PInt c1) = Inr f1 \<and> credibility_factor (PInt c2) = Inr f2
            \<longrightarrow> f1 \<le> f2) \<and>
     (\<forall>p1 p2.
        calculate_priority fmt now title description content (PInt c1) source_name pub_date = Inr p1 \<and>
        calculate_priority fmt now title description content (PInt c2) source_name pub_date = Inr p2
          \<longrightarrow> priority_rank p1 \<le> priority_rank p2) \<and>
     (0 \<le> c1 \<and> c2 \<le> 100 \<and> (\<exists>t. title = PStr t) \<and> (\<exists>s. source_name = PStr s) \<and>
      (pub_date = PNone \<or> (\<exists>d. pub_date = PDate d)) \<longrightarrow>
        (\<exists>f1 f2 p1 p2.
           credibility_factor (PInt c1) = Inr f1 \<and> credibility_factor (PInt c2) = Inr f2 \<and>
           calculate_priority fmt now title description content (PInt c1) source_name pub_date = Inr p1 \<and>
           calculate_priority fmt now title description content (PInt c2) source_name pub_date = Inr p2))"
proof (intro conjI allI impI)
  fix f1 f2
  assume "credibility_factor (PInt c1) = Inr f1 \<and> credibility_factor (PInt c2) = Inr f2"
  then show "f1 \<le> f2" using assms credibility_factor_mono by blast
next
  fix p1 p2
  assume "calculate_priority fmt now title description content (PInt c1) source_name pub_date = Inr p1 \<and>
        calculate_priority fmt now title description content (PInt c2) source_name pub_date = Inr p2"
  then show "priority_rank p1 \<le> priority_rank p2" using assms calculate_priority_mono by blast
next
  assume a: "0 \<le> c1 \<and> c2 \<le> 100 \<and> (\<exists>t. title = PStr t) \<and> (\<exists>s. source_name = PStr s) \<and>
      (pub_date = PNone \<or> (\<exists>d. pub_date = PDate d))"
  then obtain t s where t: "title = PStr t" and s: "source_name = PStr s" by blast
  have r1: "0 \<le> c1" "c1 \<le> 100" and r2: "0 \<le> c2" "c2 \<le> 100" using a assms by simp_all
  have "\<exists>f. credibility_factor (PInt c1) = Inr f"
    by (simp add: credibility_factor_def int_truediv_in_range[OF r1])
  moreover have "\<exists>f. credibility_factor (PInt c2) = Inr f"
    by (simp add: credibility_factor_def int_truediv_in_range[OF r2])
  moreover have "\<exists>p. calculate_priority fmt now title description content (PInt c1) source_name pub_date = Inr p"
    unfolding t s using r1 a by (intro calculate_priority_returns) simp_all
  moreover have "\<exists>p. calculate_priority fmt now title description content (PInt c2) source_name pub_date = Inr p"
    unfolding t s using r2 a by (intro calculate_priority_returns) simp_all
  ultimately show "\<exists>f1 f2 p1 p2.
           credibility_factor (PInt c1) = Inr f1 \<and> credibility_factor (PInt c2) = Inr f2 \<and>
           calculate_priority fmt now title description content (PInt c1) source_name pub_date = Inr p1 \<and>
           calculate_priority fmt now title description content (PInt c2) source_name pub_date = Inr p2"
    by blast
qed

theorem calculate_priority_mono_credibility_witness:
  "calculate_priority (\<lambda>v. []) 0 (PStr ''x'') (PStr ''simples nacional'') (PStr []) (PInt 0)
     (PStr ''Blog'') PNone = Inr ''low'' \<and>
   calculate_priority (\<lambda>v. []) 0 (PStr ''x'') (PStr ''simples nacional'') (PStr []) (PInt 100)
     (PStr ''Blog'') PNone = Inr ''medium'' \<and>
   priority_rank ''low'' \<le> priority_rank ''medium''"
proof -
  have c: "(0::int) \<le> 100" by simp
  have a: "calculate_priority (\<lambda>v. []) 0 (PStr ''x'') (PStr ''simples nacional'') (PStr []) (PInt 0)
     (PStr ''Blog'') PNone = Inr ''low''"
    by (rule calculate_priority_relevance_60[OF demo_relevance_60 demo_source_unlisted])
  have "int_truediv 100 100 = Inr (fl (of_int 100 / 100))"
    by (rule int_truediv_in_range) simp_all
  then have b: "calculate_priority (\<lambda>v. []) 0 (PStr ''x'') (PStr ''simples nacional'') (PStr []) (PInt 100)
     (PStr ''Blog'') PNone = Inr ''medium''"
    using find_multiplier_default[OF demo_source_unlisted]
    by (simp add: calculate_priority_def call_calculate_relevance_score_def fstr_def
        demo_relevance_60 credibility_factor_def recency_bonus_def
        priority_level_60_credibility_100)
  from calculate_priority_mono_credibility[OF c, of "\<lambda>v. []" 0 "PStr ''x''"
      "PStr ''simples nacional''" "PStr []" "PStr ''Blog''" PNone] a b
  show ?thesis by blast
qed

text \<open>
  C3, as the code has it: with a relevance score of 60, credibility 0, a source name that
  contains no key of the multiplier table and no publication date, the multiplier is 1,
  the credibility factor is the float 0.7, the final score is exactly 42, and
  \<^verbatim>\<open>calculate_priority\<close> returns \<^verbatim>\<open>low\<close>, since 42 is below the threshold 50 of
  \<^verbatim>\<open>medium\<close>.
\<close>

theorem priority_of_relevance_60:
  assumes "calculate_relevance_score title description content = 60"
    and "\<forall>k \<in> set (map fst SOURCE_MULTIPLIERS). \<not> str_in k (lower source_name)"
  shows "find_multiplier (lower source_name) SOURCE_MULTIPLIERS = 1 \<and>
     credibility_factor (PInt 0) = Inr (fl (7 / 10)) \<and>
     final_score 60 1 (fl (7 / 10)) 0 = 42 \<and>
     calculate_priority fmt now (PStr title) (PStr description) (PStr content) (PInt 0)
       (PStr source_name) PNone = Inr ''low''"
  using find_multiplier_default[OF assms(2)] credibility_factor_0 final_score_60
    calculate_priority_relevance_60[OF assms]
  by simp

theorem priority_of_relevance_60_witness:
  "calculate_relevance_score ''x'' ''simples nacional'' [] = 60 \<and>
   find_multiplier (lower ''Blog'') SOURCE_MULTIPLIERS = 1 \<and>
   final_score 60 1 (fl (7 / 10)) 0 = 42 \<and>
   calculate_priority (\<lambda>v. []) 0 (PStr ''x'') (PStr ''simples nacional'') (PStr []) (PInt 0)
     (PStr ''Blog'') PNone = Inr ''low''"
  using priority_of_relevance_60[OF demo_relevance_60 demo_source_unlisted, of "\<lambda>v. []" 0] demo_relevance_60
  by blast

text \<open>
  An input of relevance 60 under the conditions of C3 for which the priority is not
  \<^verbatim>\<open>medium\<close>.
\<close>

theorem priority_of_relevance_60_counterexample:
  "calculate_relevance_score ''x'' ''simples nacional'' [] = 60 \<and>
   calculate_priority (\<lambda>v. []) 0 (PStr ''x'') (PStr ''simples nacional'') (PStr []) (PInt 0)
     (PStr ''Blog'') PNone = Inr ''low'' \<and>
   calculate_priority (\<lambda>v. []) 0 (PStr ''x'') (PStr ''simples nacional'') (PStr []) (PInt 0)
     (PStr ''Blog'') PNone \<noteq> Inr ''medium''"
  using calculate_priority_relevance_60[OF demo_relevance_60 demo_source_unlisted, of "\<lambda>v. []" 0]
    demo_relevance_60
  by simp


section \<open>Batch scoring\<close>

lemma enhanced_item_frame:
  assumes "enhanced_item fmt now it = Inr e"
  shows "\<forall>k. k \<notin> enrichment_keys \<longrightarrow> e k = it k"
    and "\<exists>score priority kws category.
           e ''relevance_score'' = Some (PInt score) \<and> e ''priority'' = Some (PStr priority) \<and>
           e ''keywords'' = Some (PList kws) \<and> e ''category'' = Some (PStr category)"
  using assms
  by (auto simp: enhanced_item_def Let_def enrichment_keys_def split: sum.splits)

lemma enhanced_item_values:
  assumes "enhanced_item fmt now it = Inr e"
  shows "\<exists>score priority.
     call_calculate_relevance_score fmt (dict_get it ''title'' (PStr []))
       (dict_get it ''description'' (PStr [])) (dict_get it ''content'' (PStr [])) = Inr score \<and>
     calculate_priority fmt now (dict_get it ''title'' (PStr []))
       (dict_get it ''description'' (PStr [])) (dict_get it ''content'' (PStr []))
       (dict_get it ''source_credibility'' (PInt 70)) (dict_get it ''source_name'' (PStr []))
       (dict_get it ''pub_date'' PNone) = Inr priority \<and>
     e = it(''relevance_score'' \<mapsto> PInt score,
            ''priority'' \<mapsto> PStr priority,
            ''keywords'' \<mapsto> PList (extract_keywords
               (fstr fmt (dict_get it ''title'' (PStr [])))
               (fstr fmt (dict_get it ''description'' (PStr [])))
               (fstr fmt (dict_get it ''content'' (PStr [])))),
            ''category'' \<mapsto> PStr (categorize_content
               (fstr fmt (dict_get it ''title'' (PStr [])))
               (fstr fmt (dict_get it ''description'' (PStr [])))
               (fstr fmt (dict_get it ''content'' (PStr [])))))"
  using assms by (auto simp: enhanced_item_def Let_def split: sum.splits)

lemma enhanced_item_returns:
  assumes "well_typed_item it"
  shows "\<exists>e. enhanced_item fmt now it = Inr e"
proof -
  from assms obtain t s c where
    t: "dict_get it ''title'' (PStr []) = PStr t" and
    s: "dict_get it ''source_name'' (PStr []) = PStr s" and
    c: "dict_get it ''source_credibility'' (PInt 70) = PInt c" "0 \<le> c" "c \<le> 100" and
    d: "dict_get it ''pub_date'' PNone = PNone \<or> (\<exists>d. dict_get it ''pub_date'' PNone = PDate d)"
    by (auto simp: well_typed_item_def split: pyval.splits)
  obtain p where "calculate_priority fmt now (PStr t) (dict_get it ''description'' (PStr []))
      (dict_get it ''content'' (PStr [])) (PInt c) (PStr s) (dict_get it ''pub_date'' PNone) = Inr p"
    using calculate_priority_returns[OF c(2,3) d] by blast
  then show ?thesis
    by (simp add: enhanced_item_def Let_def t s c(1) call_calculate_relevance_score_def)
qed

lemma score_batch_loop_result:
  assumes "\<forall>a \<in> set items. a < length h"
    and "score_batch_loop fmt now h items acc = Inr (h', out)"
  shows "\<exists>es. length es = length items \<and>
           (\<forall>i < length items. enhanced_item fmt now (h ! (items ! i)) = Inr (es ! i)) \<and>
           h' = h @ es \<and> out = acc @ [length h ..< length h + length items]"
  using assms
proof (induction items arbitrary: h acc)
  case Nil
  then show ?case by simp
next
  case (Cons a rest)
  from Cons.prems(2) obtain e where
    e: "enhanced_item fmt now (h ! a) = Inr e" and
    loop: "score_batch_loop fmt now (h @ [e]) rest (acc @ [length h]) = Inr (h', out)"
    by (auto split: sum.splits)
  have valid: "\<forall>a \<in> set rest. a < length (h @ [e])" using Cons.prems(1) by auto
  from Cons.IH[OF valid loop] obtain es where
    es: "length es = length rest"
      "\<forall>i < length rest. enhanced_item fmt now ((h @ [e]) ! (rest ! i)) = Inr (es ! i)"
      "h' = (h @ [e]) @ es"
      "out = (acc @ [length h]) @ [length (h @ [e]) ..< length (h @ [e]) + length rest]"
    by blast
  have nth: "(h @ [e]) ! (rest ! i) = h ! (rest ! i)" if "i < length rest" for i
    using Cons.prems(1) that by (simp add: nth_append)
  have 1: "length (e # es) = length (a # rest)" using es(1) by simp
  have 2: "\<forall>i < length (a # rest). enhanced_item fmt now (h ! ((a # rest) ! i)) = Inr ((e # es) ! i)"
  proof (intro allI impI)
    fix i assume "i < length (a # rest)"
    then show "enhanced_item fmt now (h ! ((a # rest) ! i)) = Inr ((e # es) ! i)"
      using e es(2) nth by (cases i) auto
  qed
  have 3: "h' = h @ (e # es)" using es(3) by simp
  have 4: "out = acc @ [length h ..< length h + length (a # rest)]"
    unfolding es(4) using upt_conv_Cons[of "length h" "Suc (length h + length rest)"]
    by (simp del: upt_Suc)
  from 1 2 3 4 show ?case by blast
qed

lemma score_batch_loop_returns:
  assumes "\<forall>a \<in> set items. a < length h \<and> well_typed_item (h ! a)"
  shows "\<exists>h' out. score_batch_loop fmt now h items acc = Inr (h', out)"
  using assms
proof (induction items arbitrary: h acc)
  case Nil
  then show ?case by simp
next
  case (Cons a rest)
  have "well_typed_item (h ! a)" using Cons.prems by simp
  then obtain e where e: "enhanced_item fmt now (h ! a) = Inr e"
    using enhanced_item_returns by blast
  have "\<forall>b \<in> set rest. b < length (h @ [e]) \<and> well_typed_item ((h @ [e]) ! b)"
    using Cons.prems by (auto simp: nth_append)
  from Cons.IH[OF this] show ?case by (simp add: e)
qed

lemma demo_ibs_relevance: "calculate_relevance_score ''ibs'' [] [] = 100"
  by code_simp

lemma demo_ibs_keywords: "extract_keywords ''ibs'' [] [] = [''ibs'']"
  by code_simp

lemma demo_ibs_category: "categorize_content ''ibs'' [] [] = ''tax_reform''"
  by code_simp

lemma priority_level_100_credibility_70:
  "priority_level (final_score 100 1 (fl (fl (7 / 10) + fl (fl (7 / 10) * fl (3 / 5)))) 0) = ''high''"
  by code_simp

lemma demo_ibs_priority:
  "calculate_priority fmt now (PStr ''ibs'') (PStr []) (PStr []) (PInt 70) (PStr []) PNone = Inr ''high''"
proof -
  have u: "\<forall>k \<in> set (map fst SOURCE_MULTIPLIERS). \<not> str_in k (lower [])"
    by (simp add: SOURCE_MULTIPLIERS_def lower_def)
  have "int_truediv 70 100 = Inr (fl (of_int 70 / 100))"
    by (rule int_truediv_in_range) simp_all
  then show ?thesis
    using find_multiplier_default[OF u]
    by (simp add: calculate_priority_def call_calculate_relevance_score_def fstr_def
        demo_ibs_relevance credibility_factor_def recency_bonus_def
        priority_level_100_credibility_70)
qed

text \<open>
  C10: when \<^verbatim>\<open>score_batch\<close> returns, its result has one new object per input item, in the
  order of the input; the object for the i-th item is that item with the four
  enrichment keys set to what \<^verbatim>\<open>calculate_relevance_score\<close>, \<^verbatim>\<open>calculate_priority\<close>,
  \<^verbatim>\<open>extract_keywords\<close> and \<^verbatim>\<open>categorize_content\<close> compute for it, and so agrees with the
  item on every other key; every object of the store that existed before the call, the
  input items among them, is unchanged. It returns whenever the items have the field
  types of a feed entry.
\<close>

theorem score_batch_frame:
  assumes "\<forall>a \<in> set items. a < length h"
  shows "(\<forall>h' out. score_batch fmt now h items = Inr (h', out) \<longrightarrow>
            length out = length items \<and>
            length h' = length h + length items \<and>
            (\<forall>a < length h. h' ! a = h ! a) \<and>
            (\<forall>i < length items.
               out ! i = length h + i \<and>
               (\<exists>score priority.
                  call_calculate_relevance_score fmt
                    (dict_get (h ! (items ! i)) ''title'' (PStr []))
                    (dict_get (h ! (items ! i)) ''description'' (PStr []))
                    (dict_get (h ! (items ! i)) ''content'' (PStr [])) = Inr score \<and>
                  calculate_priority fmt now
                    (dict_get (h ! (items ! i)) ''title'' (PStr []))
                    (dict_get (h ! (items ! i)) ''description'' (PStr []))
                    (dict_get (h ! (items ! i)) ''content'' (PStr []))
                    (dict_get (h ! (items ! i)) ''source_credibility'' (PInt 70))
                    (dict_get (h ! (items ! i)) ''source_name'' (PStr []))
                    (dict_get (h ! (items ! i)) ''pub_date'' PNone) = Inr priority \<and>
                  h' ! (out ! i) =
                    (h ! (items ! i))
                      (''relevance_score'' \<mapsto> PInt score,
                       ''priority'' \<mapsto> PStr priority,
                       ''keywords'' \<mapsto> PList (extract_keywords
                          (fstr fmt (dict_get (h ! (items ! i)) ''title'' (PStr [])))
                          (fstr fmt (dict_get (h ! (items ! i)) ''description'' (PStr [])))
                          (fstr fmt (dict_get (h ! (items ! i)) ''content'' (PStr [])))),
                       ''category'' \<mapsto> PStr (categorize_content
                          (fstr fmt (dict_get (h ! (items ! i)) ''title'' (PStr [])))
                          (fstr fmt (dict_get (h ! (items ! i)) ''description'' (PStr [])))
                          (fstr fmt (dict_get (h ! (items ! i)) ''content'' (PStr [])))))) \<and>
               (\<forall>k. k \<notin> enrichment_keys \<longrightarrow> (h' ! (out ! i)) k = (h ! (items ! i)) k))) \<and>
     ((\<forall>a \<in> set items. well_typed_item (h ! a)) \<longrightarrow>
        (\<exists>h' out. score_batch fmt now h items = Inr (h', out)))"
proof (intro conjI allI impI)
  fix h' out
  assume r: "score_batch fmt now h items = Inr (h', out)"
  then obtain es where
    es: "length es = length items"
      "\<forall>i < length items. enhanced_item fmt now (h ! (items ! i)) = Inr (es ! i)"
      "h' = h @ es" "out = [length h ..< length h + length items]"
    using score_batch_loop_result[OF assms, of fmt now "[]" h' out]
    by (auto simp: score_batch_def)
  show "length out = length items" by (simp add: es(4))
  show "length h' = length h + length items" by (simp add: es(1,3))
  show "h' ! a = h ! a" if "a < length h" for a using that by (simp add: es(3) nth_append)
  fix i assume i: "i < length items"
  show o: "out ! i = length h + i" using i by (simp add: es(4))
  have n: "h' ! (out ! i) = es ! i" by (simp add: o es(3))
  have e: "enhanced_item fmt now (h ! (items ! i)) = Inr (h' ! (out ! i))"
    using es(2) i by (simp add: n)
  show "(h' ! (out ! i)) k = (h ! (items ! i)) k" if "k \<notin> enrichment_keys" for k
    using enhanced_item_frame(1)[OF e] that by blast
  show "\<exists>score priority.
          call_calculate_relevance_score fmt
            (dict_get (h ! (items ! i)) ''title'' (PStr []))
            (dict_get (h ! (items ! i)) ''description'' (PStr []))
            (dict_get (h ! (items ! i)) ''content'' (PStr [])) = Inr score \<and>
          calculate_priority fmt now
            (dict_get (h ! (items ! i)) ''title'' (PStr []))
            (dict_get (h ! (items ! i)) ''description'' (PStr []))
            (dict_get (h ! (items ! i)) ''content'' (PStr []))
            (dict_get (h ! (items ! i)) ''source_credibility'' (PInt 70))
            (dict_get (h ! (items ! i)) ''source_name'' (PStr []))
            (dict_get (h ! (items ! i)) ''pub_date'' PNone) = Inr priority \<and>
          h' ! (out ! i) =
            (h ! (items ! i))
              (''relevance_score'' \<mapsto> PInt score,
               ''priority'' \<mapsto> PStr priority,
               ''keywords'' \<mapsto> PList (extract_keywords
                  (fstr fmt (dict_get (h ! (items ! i)) ''title'' (PStr [])))
                  (fstr fmt (dict_get (h ! (items ! i)) ''description'' (PStr [])))
                  (fstr fmt (dict_get (h ! (items ! i)) ''content'' (PStr [])))),
               ''category'' \<mapsto> PStr (categorize_content
                  (fstr fmt (dict_get (h ! (items ! i)) ''title'' (PStr [])))
                  (fstr fmt (dict_get (h ! (items ! i)) ''description'' (PStr [])))
                  (fstr fmt (dict_get (h ! (items ! i)) ''content'' (PStr [])))))"
    by (rule enhanced_item_values[OF e])
next
  assume "\<forall>a \<in> set items. well_typed_item (h ! a)"
  then have "\<forall>a \<in> set items. a < length h \<and> well_typed_item (h ! a)" using assms by blast
  then show "\<exists>h' out. score_batch fmt now h items = Inr (h', out)"
    unfolding score_batch_def by (rule score_batch_loop_returns)
qed

theorem score_batch_frame_witness:
  "\<exists>h' out. score_batch (\<lambda>v. []) 0 demo_heap [0] = Inr (h', out) \<and>
     out = [4] \<and> length h' = 5 \<and> h' ! 0 = demo_heap ! 0 \<and>
     (h' ! 4) ''title'' = Some (PStr ''ibs'') \<and>
     (h' ! 4) ''relevance_score'' = Some (PInt 100) \<and>
     (h' ! 4) ''priority'' = Some (PStr ''high'') \<and>
     (h' ! 4) ''keywords'' = Some (PList [''ibs'']) \<and>
     (h' ! 4) ''category'' = Some (PStr ''tax_reform'')"
proof -
  have v: "\<forall>a \<in> set [0]. a < length demo_heap" by (simp add: demo_heap_def)
  have w: "\<forall>a \<in> set [0]. well_typed_item (demo_heap ! a)"
    by (simp add: demo_heap_def well_typed_item_def dict_get_def)
  have g: "dict_get (demo_heap ! 0) ''title'' (PStr []) = PStr ''ibs''"
    "dict_get (demo_heap ! 0) ''description'' (PStr []) = PStr []"
    "dict_get (demo_heap ! 0) ''content'' (PStr []) = PStr []"
    "dict_get (demo_heap ! 0) ''source_credibility'' (PInt 70) = PInt 70"
    "dict_get (demo_heap ! 0) ''source_name'' (PStr []) = PStr []"
    "dict_get (demo_heap ! 0) ''pub_date'' PNone = PNone"
    by (simp_all add: demo_heap_def dict_get_def)
  note t = score_batch_frame[OF v, of "\<lambda>v. []" 0]
  from t w obtain h' out where r: "score_batch (\<lambda>v. []) 0 demo_heap [0] = Inr (h', out)"
    by blast
  from t r have p: "length out = length [0::nat]"
    "length h' = length demo_heap + length [0::nat]"
    "\<forall>a < length demo_heap. h' ! a = demo_heap ! a"
    "\<forall>i < length [0::nat]. out ! i = length demo_heap + i"
    by blast+
  from t r have "\<forall>i < length [0::nat]. \<exists>score priority.
      call_calculate_relevance_score (\<lambda>v. [])
        (dict_get (demo_heap ! ([0] ! i)) ''title'' (PStr []))
        (dict_get (demo_heap ! ([0] ! i)) ''description'' (PStr []))
        (dict_get (demo_heap ! ([0] ! i)) ''content'' (PStr [])) = Inr score \<and>
      calculate_priority (\<lambda>v. []) 0
        (dict_get (demo_heap ! ([0] ! i)) ''title'' (PStr []))
        (dict_get (demo_heap ! ([0] ! i)) ''description'' (PStr []))
        (dict_get (demo_heap ! ([0] ! i)) ''content'' (PStr []))
        (dict_get (demo_heap ! ([0] ! i)) ''source_credibility'' (PInt 70))
        (dict_get (demo_heap ! ([0] ! i)) ''source_name'' (PStr []))
        (dict_get (demo_heap ! ([0] ! i)) ''pub_date'' PNone) = Inr priority \<and>
      h' ! (out ! i) =
        (demo_heap ! ([0] ! i))
          (''relevance_score'' \<mapsto> PInt score,
           ''priority'' \<mapsto> PStr priority,
           ''keywords'' \<mapsto> PList (extract_keywords
              (fstr (\<lambda>v. []) (dict_get (demo_heap ! ([0] ! i)) ''title'' (PStr [])))
              (fstr (\<lambda>v. []) (dict_get (demo_heap ! ([0] ! i)) ''description'' (PStr [])))
              (fstr (\<lambda>v. []) (dict_get (demo_heap ! ([0] ! i)) ''content'' (PStr [])))),
           ''category'' \<mapsto> PStr (categorize_content
              (fstr (\<lambda>v. []) (dict_get (demo_heap ! ([0] ! i)) ''title'' (PStr [])))
              (fstr (\<lambda>v. []) (dict_get (demo_heap ! ([0] ! i)) ''description'' (PStr [])))
              (fstr (\<lambda>v. []) (dict_get (demo_heap ! ([0] ! i)) ''content'' (PStr [])))))"
    by blast
  then obtain score priority where
    s: "call_calculate_relevance_score (\<lambda>v. []) (PStr ''ibs'') (PStr []) (PStr []) = Inr score" and
    q: "calculate_priority (\<lambda>v. []) 0 (PStr ''ibs'') (PStr []) (PStr []) (PInt 70) (PStr []) PNone
          = Inr priority" and
    e: "h' ! (out ! 0) =
        (demo_heap ! 0)
          (''relevance_score'' \<mapsto> PInt score,
           ''priority'' \<mapsto> PStr priority,
           ''keywords'' \<mapsto> PList (extract_keywords ''ibs'' [] []),
           ''category'' \<mapsto> PStr (categorize_content ''ibs'' [] []))"
    by (auto simp: g fstr_def)
  have score: "score = 100"
    using s by (simp add: call_calculate_relevance_score_def fstr_def demo_ibs_relevance)
  have priority: "priority = ''high''" using q by (simp add: demo_ibs_priority)
  have l: "length demo_heap = 4" by (simp add: demo_heap_def)
  have o0: "out ! 0 = 4" using p(4) l by auto
  have "length out = 1" using p(1) by simp
  then have out: "out = [4]" using o0 by (cases out) auto
  have len: "length h' = 5" using p(2) l by simp
  have h0: "h' ! 0 = demo_heap ! 0" using p(3) l by auto
  have e': "h' ! 4 = (demo_heap ! 0)
          (''relevance_score'' \<mapsto> PInt 100, ''priority'' \<mapsto> PStr ''high'',
           ''keywords'' \<mapsto> PList [''ibs''], ''category'' \<mapsto> PStr ''tax_reform'')"
    using e by (simp add: o0 score priority demo_ibs_keywords demo_ibs_category)
  have k: "(h' ! 4) ''title'' = Some (PStr ''ibs'')"
    "(h' ! 4) ''relevance_score'' = Some (PInt 100)"
    "(h' ! 4) ''priority'' = Some (PStr ''high'')"
    "(h' ! 4) ''keywords'' = Some (PList [''ibs''])"
    "(h' ! 4) ''category'' = Some (PStr ''tax_reform'')"
    by (simp_all add: e' demo_heap_def)
  from r out len h0 k show ?thesis by blast
qed


section \<open>Search: facets and the empty query\<close>



















text \<open>
  C7: a query made of stripped characters only sanitizes to the empty string; the body of
  \<^verbatim>\<open>search_content\<close> raises status 400 for it, and the handler around the body turns
  that into status 500, which is what the caller receives.
\<close>

theorem search_content_unsearchable_query:
  "sanitize_search_query ''!!!'' = [] \<and>
   search_content_body ext db
      \<lparr>query = ''!!!'', filters = None, page = 1, per_page = 20, sort_by = ''relevance'',
       sort_order = ''desc'', highlight = True\<rparr> user
     = Inl (HTTPException 400) \<and>
   search_content ext db
      \<lparr>query = ''!!!'', filters = None, page = 1, per_page = 20, sort_by = ''relevance'',
       sort_order = ''desc'', highlight = True\<rparr> user
     = Inl (HTTPException 500)"
proof -
  have "sanitize_search_query ''!!!'' = []" by code_simp
  then show ?thesis
    by (simp add: search_content_def search_content_body_def valid_request_def)
qed

end
